theory Spec2Isabelle
  imports Complex_Main
begin

section \<open>The JavaScript values the converter works on\<close>

text \<open>
  The converter (\<^verbatim>\<open>src/index.tsx\<close>, section "MERGED FROM services/excelProcessor.ts")
  is written against the JavaScript runtime: cells are \<^verbatim>\<open>string | number | Date | null\<close>
  (type \<^verbatim>\<open>ExcelRow\<close>), a missing property or array slot is \<^verbatim>\<open>undefined\<close>, and the code
  uses \<^verbatim>\<open>String\<close>, \<^verbatim>\<open>trim\<close>, \<^verbatim>\<open>includes\<close>, \<^verbatim>\<open>replace\<close>, \<^verbatim>\<open>join\<close>,
  \<^verbatim>\<open>parseInt\<close>, \<^verbatim>\<open>parseFloat\<close> and \<^verbatim>\<open>Date\<close>.
  This section models these built-ins after ECMA-262.

  Strings are lists of code units below 256. A finite number is a decimal
  \<open>m * 10 ^ e\<close>; the rounding of a parsed literal to zero (at most \<open>2 ^ -1075\<close>) and
  to infinity (at least \<open>2 ^ 1024 - 2 ^ 970\<close>) is modelled, the rounding of the
  significand in between is not: a number is the decimal it prints as.
\<close>

subsection \<open>Strings\<close>

definition isWhiteSpace :: "char \<Rightarrow> bool" where
  "isWhiteSpace c = (c \<in> set [CHR 0x09, CHR 0x0A, CHR 0x0B, CHR 0x0C, CHR 0x0D, CHR 0x20, CHR 0xA0])"

definition trimStart :: "string \<Rightarrow> string" where
  "trimStart s = dropWhile isWhiteSpace s"

definition trim :: "string \<Rightarrow> string" where
  "trim s = rev (dropWhile isWhiteSpace (rev (dropWhile isWhiteSpace s)))"

fun startsWith :: "string \<Rightarrow> string \<Rightarrow> bool" where
  "startsWith s [] = True"
| "startsWith [] (k # ks) = False"
| "startsWith (c # cs) (k # ks) = (c = k \<and> startsWith cs ks)"

text \<open>\<^verbatim>\<open>s.includes(kw)\<close>: \<open>kw\<close> occurs in \<open>s\<close> as a contiguous substring.\<close>

fun includesStr :: "string \<Rightarrow> string \<Rightarrow> bool" where
  "includesStr [] kw = (kw = [])"
| "includesStr (c # cs) kw = (startsWith (c # cs) kw \<or> includesStr cs kw)"

text \<open>\<^verbatim>\<open>xs.join(sep)\<close> on an array of strings.\<close>

fun join :: "string \<Rightarrow> string list \<Rightarrow> string" where
  "join sep [] = []"
| "join sep [x] = x"
| "join sep (x # y # ys) = x @ sep @ join sep (y # ys)"

text \<open>\<^verbatim>\<open>s.replace(',', '.')\<close>: a string pattern replaces the first occurrence only.\<close>

fun replaceFirst :: "char \<Rightarrow> char \<Rightarrow> string \<Rightarrow> string" where
  "replaceFirst a b [] = []"
| "replaceFirst a b (c # cs) = (if c = a then b # cs else c # replaceFirst a b cs)"

text \<open>\<^verbatim>\<open>s.replace(/"/g, '""')\<close>: every double quote is doubled.\<close>

definition dquote :: char where
  "dquote = CHR 0x22"

definition doubleQuotes :: "string \<Rightarrow> string" where
  "doubleQuotes s = concat (map (\<lambda>c. if c = dquote then [dquote, dquote] else [c]) s)"

text \<open>\<^verbatim>\<open>s.padStart(2, '0')\<close>.\<close>

definition padStart2 :: "string \<Rightarrow> string" where
  "padStart2 s = replicate (2 - length s) CHR ''0'' @ s"

subsection \<open>Numbers\<close>

datatype jsnum = NaN | PInf | NInf | Fin int int

definition isDigit :: "char \<Rightarrow> bool" where
  "isDigit c = (c \<in> set ''0123456789'')"

definition digitChar :: "nat \<Rightarrow> char" where
  "digitChar n = ''0123456789'' ! n"

definition digitVal :: "char \<Rightarrow> nat" where
  "digitVal c = of_char c - 48"

fun showNat :: "nat \<Rightarrow> string" where
  "showNat n = (if n < 10 then [digitChar n] else showNat (n div 10) @ [digitChar (n mod 10)])"

declare showNat.simps [simp del]

definition readNat :: "string \<Rightarrow> nat" where
  "readNat ds = foldl (\<lambda>a c. 10 * a + digitVal c) 0 ds"

definition showInt :: "int \<Rightarrow> string" where
  "showInt i = (if i < 0 then CHR ''-'' # showNat (nat (- i)) else showNat (nat i))"

text \<open>
  \<open>Number::toString\<close> of a positive finite number (ECMA-262, 6.1.6.1.20): \<open>s\<close> are the
  digits without trailing zeros, \<open>k\<close> their number, and the value is \<open>s * 10 ^ (n - k)\<close>.
\<close>

definition numDigits :: "string \<Rightarrow> int \<Rightarrow> string" where
  "numDigits s n =
     (let k = int (length s) in
      if k \<le> n \<and> n \<le> 21 then s @ replicate (nat (n - k)) CHR ''0''
      else if 0 < n \<and> n \<le> 21 then take (nat n) s @ ''.'' @ drop (nat n) s
      else if - 6 < n \<and> n \<le> 0 then ''0.'' @ replicate (nat (- n)) CHR ''0'' @ s
      else
        (let ex = (if n - 1 < 0 then CHR ''-'' else CHR ''+'') # showNat (nat \<bar>n - 1\<bar>) in
         if k = 1 then s @ ''e'' @ ex
         else take 1 s @ ''.'' @ drop 1 s @ ''e'' @ ex))"

definition stripZeros :: "string \<Rightarrow> string" where
  "stripZeros ds = rev (dropWhile (\<lambda>c. c = CHR ''0'') (rev ds))"

definition posToString :: "nat \<Rightarrow> int \<Rightarrow> string" where
  "posToString m e =
     (let ds = showNat m; s = stripZeros ds
      in numDigits s (int (length ds) + e))"

fun numToString :: "jsnum \<Rightarrow> string" where
  "numToString NaN = ''NaN''"
| "numToString PInf = ''Infinity''"
| "numToString NInf = ''-Infinity''"
| "numToString (Fin m e) =
     (if m = 0 then ''0''
      else if m < 0 then CHR ''-'' # posToString (nat (- m)) e
      else posToString (nat m) e)"

text \<open>The value of a finite number, and the comparison \<^verbatim>\<open>x > 1\<close>.\<close>

definition numVal :: "int \<Rightarrow> int \<Rightarrow> rat" where
  "numVal m e = (if 0 \<le> e then of_int (m * 10 ^ nat e) else of_int m / of_int (10 ^ nat (- e)))"

fun numGreater1 :: "jsnum \<Rightarrow> bool" where
  "numGreater1 NaN = False"
| "numGreater1 PInf = True"
| "numGreater1 NInf = False"
| "numGreater1 (Fin m e) = (1 < numVal m e)"

fun numIsZero :: "jsnum \<Rightarrow> bool" where
  "numIsZero (Fin m e) = (m = 0)"
| "numIsZero _ = False"

text \<open>
  The Number value of a decimal literal with digits \<open>m\<close> and exponent \<open>e\<close>: zero when
  it rounds to zero, infinite when it rounds to infinity, the decimal itself otherwise,
  with the trailing zeros of \<open>m\<close> moved into the exponent.
\<close>

definition roundsToZero :: "nat \<Rightarrow> int \<Rightarrow> bool" where
  "roundsToZero m e = (if 0 \<le> e then m = 0 else int m * 2 ^ 1075 \<le> 10 ^ nat (- e))"

definition roundsToInf :: "nat \<Rightarrow> int \<Rightarrow> bool" where
  "roundsToInf m e =
     (if 0 \<le> e then 2 ^ 1024 - 2 ^ 970 \<le> int m * 10 ^ nat e
      else (2 ^ 1024 - 2 ^ 970) * 10 ^ nat (- e) \<le> int m)"

definition mkNum :: "bool \<Rightarrow> nat \<Rightarrow> int \<Rightarrow> jsnum" where
  "mkNum neg m e =
     (if roundsToZero m e then Fin 0 0
      else if roundsToInf m e then (if neg then NInf else PInf)
      else
        (let ds = showNat m; s = stripZeros ds;
             v = int (readNat s); e' = e + int (length ds) - int (length s)
         in Fin (if neg then - v else v) e'))"

text \<open>
  \<^verbatim>\<open>parseInt(s, 10)\<close> (ECMA-262, 19.2.5): leading white space, an optional sign, the
  longest run of decimal digits; \<open>NaN\<close> when there is no digit.
\<close>

definition splitSign :: "string \<Rightarrow> bool \<times> string" where
  "splitSign s =
     (case s of
        c # cs \<Rightarrow> if c = CHR ''-'' then (True, cs) else if c = CHR ''+'' then (False, cs) else (False, s)
      | [] \<Rightarrow> (False, s))"

definition parseInt :: "string \<Rightarrow> jsnum" where
  "parseInt s =
     (let (neg, r) = splitSign (trimStart s); ds = takeWhile isDigit r
      in if ds = [] then NaN else mkNum neg (readNat ds) 0)"

text \<open>
  \<^verbatim>\<open>parseFloat(s)\<close> (ECMA-262, 19.2.4): leading white space, then the longest prefix
  that is a \<open>StrDecimalLiteral\<close>: a sign, then \<open>Infinity\<close>, or digits with an optional
  fraction and an optional exponent; \<open>NaN\<close> when there is none.
\<close>

definition exponentPart :: "string \<Rightarrow> int" where
  "exponentPart r =
     (case r of
        c # cs \<Rightarrow>
          if c = CHR ''e'' \<or> c = CHR ''E'' then
            (let (neg, r') = splitSign cs; ds = takeWhile isDigit r'
             in if ds = [] then 0 else if neg then - int (readNat ds) else int (readNat ds))
          else 0
      | [] \<Rightarrow> 0)"

definition parseFloat :: "string \<Rightarrow> jsnum" where
  "parseFloat s =
     (let (neg, r) = splitSign (trimStart s) in
      if startsWith r ''Infinity'' then (if neg then NInf else PInf)
      else
        (let ip = takeWhile isDigit r; r1 = dropWhile isDigit r;
             hasDot = (case r1 of c # _ \<Rightarrow> c = CHR ''.'' | [] \<Rightarrow> False);
             fp = (if hasDot then takeWhile isDigit (tl r1) else []);
             r2 = (if hasDot then dropWhile isDigit (tl r1) else r1)
         in if ip = [] \<and> fp = [] then NaN
            else mkNum neg (readNat (ip @ fp)) (exponentPart r2 - int (length fp))))"

subsection \<open>Dates\<close>

text \<open>
  A \<^verbatim>\<open>Date\<close> holds a time value in milliseconds since 1970-01-01 UTC, or is invalid.
  The calendar functions are those of ECMA-262, 21.4.1; the local time zone is a
  constant offset \<open>tz\<close> from UTC, in milliseconds.
\<close>

datatype jsdate = InvalidDate | DateT int

definition msPerDay :: int where
  "msPerDay = 86400000"

definition Day :: "int \<Rightarrow> int" where
  "Day t = t div msPerDay"

definition DayFromYear :: "int \<Rightarrow> int" where
  "DayFromYear y = 365 * (y - 1970) + (y - 1969) div 4 - (y - 1901) div 100 + (y - 1601) div 400"

definition InLeapYear :: "int \<Rightarrow> int" where
  "InLeapYear y = DayFromYear (y + 1) - DayFromYear y - 365"

lemma div_step: "(a::int) div k \<le> (a + 1) div k" if "0 < k"
  using that by (simp add: zdiv_mono1)

lemma div_step1: "((a::int) + 1) div k \<le> a div k + 1" if "0 < k"
proof -
  have "(a + 1) div k \<le> (a + k) div k"
    using that by (intro zdiv_mono1) auto
  also have "\<dots> = a div k + 1"
    using that by simp
  finally show ?thesis .
qed

lemma year_length_lin:
  fixes a a' b b' c c' y :: int
  shows "a \<le> a' \<Longrightarrow> b' \<le> b + 1 \<Longrightarrow> c \<le> c' \<Longrightarrow>
      365 * (y - 1970) + a - b + c < 365 * (y + 1 - 1970) + a' - b' + c'"
  by simp

lemma DayFromYear_step: "DayFromYear y < DayFromYear (y + 1)"
proof -
  have a: "(y - 1969) div 4 \<le> (y + 1 - 1969) div 4"
    using div_step [of 4 "y - 1969"] by (simp add: algebra_simps)
  have b: "(y + 1 - 1901) div 100 \<le> (y - 1901) div 100 + 1"
    using div_step1 [of 100 "y - 1901"] by (simp add: algebra_simps)
  have c: "(y - 1601) div 400 \<le> (y + 1 - 1601) div 400"
    using div_step [of 400 "y - 1601"] by (simp add: algebra_simps)
  show ?thesis
    unfolding DayFromYear_def by (rule year_length_lin [OF a b c])
qed

function yearUp :: "int \<Rightarrow> int \<Rightarrow> int" where
  "yearUp d y = (if DayFromYear (y + 1) \<le> d then yearUp d (y + 1) else y)"
  by pat_completeness auto
termination
proof (relation "measure (\<lambda>(d, y). nat (d - DayFromYear y))")
  show "wf (measure (\<lambda>(d, y). nat (d - DayFromYear y)))"
    by simp
next
  fix d y :: int
  assume "DayFromYear (y + 1) \<le> d"
  with DayFromYear_step [of y]
  show "((d, y + 1), (d, y)) \<in> measure (\<lambda>(d, y). nat (d - DayFromYear y))"
    by simp
qed

declare yearUp.simps [simp del]

text \<open>\<open>YearFromTime\<close>: the year that contains day \<open>d\<close>, searched upwards from a lower estimate.\<close>

definition YearOfDay :: "int \<Rightarrow> int" where
  "YearOfDay d = yearUp d (1970 + (if 0 \<le> d then d div 366 else d div 365))"

definition monthStart :: "int \<Rightarrow> int \<Rightarrow> int" where
  "monthStart leap m =
     (if m = 0 then 0 else if m = 1 then 31
      else [59, 90, 120, 151, 181, 212, 243, 273, 304, 334] ! nat (m - 2) + leap)"

definition MonthOfDay :: "int \<Rightarrow> int \<Rightarrow> int" where
  "MonthOfDay leap dy =
     (if dy < 31 then 0 else if dy < 59 + leap then 1 else if dy < 90 + leap then 2
      else if dy < 120 + leap then 3 else if dy < 151 + leap then 4
      else if dy < 181 + leap then 5 else if dy < 212 + leap then 6
      else if dy < 243 + leap then 7 else if dy < 273 + leap then 8
      else if dy < 304 + leap then 9 else if dy < 334 + leap then 10 else 11)"

text \<open>Year, month (0 to 11) and day of the month (from 1) of a time value.\<close>

definition civil :: "int \<Rightarrow> int \<times> int \<times> int" where
  "civil t =
     (let d = Day t; y = YearOfDay d; dy = d - DayFromYear y; leap = InLeapYear y;
          m = MonthOfDay leap dy
      in (y, m, dy - monthStart leap m + 1))"

definition WeekDay :: "int \<Rightarrow> int" where
  "WeekDay t = (Day t + 4) mod 7"

definition MakeDay :: "int \<Rightarrow> int \<Rightarrow> int \<Rightarrow> int" where
  "MakeDay year month date =
     (let ym = year + month div 12; mn = month mod 12
      in DayFromYear ym + monthStart (InLeapYear ym) mn + date - 1)"

definition TimeClip :: "int \<Rightarrow> jsdate" where
  "TimeClip t = (if 8640000000000000 < \<bar>t\<bar> then InvalidDate else DateT t)"

text \<open>\<^verbatim>\<open>new Date(year, month, day)\<close> on integral arguments: local midnight of that day.\<close>

definition newDateYMD :: "int \<Rightarrow> int \<Rightarrow> int \<Rightarrow> int \<Rightarrow> jsdate" where
  "newDateYMD tz y m d =
     (let yr = (if 0 \<le> y \<and> y \<le> 99 then 1900 + y else y)
      in TimeClip (MakeDay yr m d * msPerDay - tz))"

text \<open>\<^verbatim>\<open>new Date(ms)\<close> on a Number: \<open>TimeClip\<close>, which truncates towards zero.\<close>

definition truncRat :: "rat \<Rightarrow> int" where
  "truncRat r = (if 0 \<le> r then \<lfloor>r\<rfloor> else - \<lfloor>- r\<rfloor>)"

definition newDateMs :: "rat \<Rightarrow> jsdate" where
  "newDateMs r = (if 8640000000000000 < \<bar>r\<bar> then InvalidDate else DateT (truncRat r))"

text \<open>\<^verbatim>\<open>Date.prototype.toString\<close>; the implementation-defined name of the zone is left out.\<close>

definition pad2 :: "int \<Rightarrow> string" where
  "pad2 i = padStart2 (showInt i)"

definition dayNames :: "string list" where
  "dayNames = [''Sun'', ''Mon'', ''Tue'', ''Wed'', ''Thu'', ''Fri'', ''Sat'']"

definition monthNames :: "string list" where
  "monthNames = [''Jan'', ''Feb'', ''Mar'', ''Apr'', ''May'', ''Jun'',
                 ''Jul'', ''Aug'', ''Sep'', ''Oct'', ''Nov'', ''Dec'']"

definition dateToString :: "int \<Rightarrow> jsdate \<Rightarrow> string" where
  "dateToString tz d =
     (case d of
        InvalidDate \<Rightarrow> ''Invalid Date''
      | DateT tv \<Rightarrow>
          (let t = tv + tz; (y, m, dd) = civil t; s = (t mod msPerDay) div 1000;
               off = \<bar>tz\<bar> div 60000
           in dayNames ! nat (WeekDay t) @ '' '' @ monthNames ! nat m @ '' '' @ pad2 dd @ '' ''
              @ (if y < 0 then ''-'' else [])
              @ replicate (4 - length (showInt \<bar>y\<bar>)) CHR ''0'' @ showInt \<bar>y\<bar> @ '' ''
              @ pad2 (s div 3600) @ '':'' @ pad2 (s mod 3600 div 60) @ '':'' @ pad2 (s mod 60)
              @ '' GMT'' @ (if tz < 0 then ''-'' else ''+'')
              @ pad2 (off div 60) @ pad2 (off mod 60)))"

subsection \<open>Values\<close>

datatype jsval = JNull | JUndef | JStr string | JNum jsnum | JDate jsdate

text \<open>
  What the code takes from its environment: the offset of the local time zone, the
  implementation-defined \<^verbatim>\<open>Date.parse\<close> behind \<^verbatim>\<open>new Date(string)\<close>, the clock, and
  the members that every plain object inherits from \<^verbatim>\<open>Object.prototype\<close>: for a name, the
  string form of that member (for a function, an implementation-defined text), when
  there is one.
\<close>

record runtime =
  localTZA :: int
  dateParse :: "string \<Rightarrow> jsdate"
  now :: int
  inherited :: "string \<Rightarrow> string option"

definition numTruthy :: "jsnum \<Rightarrow> bool" where
  "numTruthy n = (n \<noteq> NaN \<and> \<not> numIsZero n)"

fun truthy :: "jsval \<Rightarrow> bool" where
  "truthy JNull = False"
| "truthy JUndef = False"
| "truthy (JStr s) = (s \<noteq> [])"
| "truthy (JNum n) = numTruthy n"
| "truthy (JDate d) = True"

text \<open>\<^verbatim>\<open>String(v)\<close>.\<close>

fun toStr :: "runtime \<Rightarrow> jsval \<Rightarrow> string" where
  "toStr rt JNull = ''null''"
| "toStr rt JUndef = ''undefined''"
| "toStr rt (JStr s) = s"
| "toStr rt (JNum n) = numToString n"
| "toStr rt (JDate d) = dateToString (localTZA rt) d"

text \<open>\<^verbatim>\<open>row.join(sep)\<close> on an array of values: \<^verbatim>\<open>null\<close> and \<^verbatim>\<open>undefined\<close> give the empty string.\<close>

definition joinCell :: "runtime \<Rightarrow> jsval \<Rightarrow> string" where
  "joinCell rt v = (if v = JNull \<or> v = JUndef then [] else toStr rt v)"

definition joinVals :: "runtime \<Rightarrow> string \<Rightarrow> jsval list \<Rightarrow> string" where
  "joinVals rt sep vs = join sep (map (joinCell rt) vs)"

text \<open>
  An object is the list of its properties; reading a property that is not there gives
  \<^verbatim>\<open>undefined\<close>. \<^verbatim>\<open>arr[i]\<close> beyond the end of an array gives \<^verbatim>\<open>undefined\<close> too.
\<close>

type_synonym jsobj = "(string \<times> jsval) list"

definition getProp :: "jsobj \<Rightarrow> string \<Rightarrow> jsval" where
  "getProp r k = (case map_of r k of None \<Rightarrow> JUndef | Some v \<Rightarrow> v)"

definition nthCell :: "jsval list \<Rightarrow> nat \<Rightarrow> jsval" where
  "nthCell row i = (if i < length row then row ! i else JUndef)"

text \<open>
  \<^verbatim>\<open>row[col]\<close> for a name \<open>col\<close> that the caller chooses: a property of the object
  itself, else the member of that name inherited from \<^verbatim>\<open>Object.prototype\<close>, else
  \<^verbatim>\<open>undefined\<close>. An inherited member is neither \<^verbatim>\<open>null\<close> nor \<^verbatim>\<open>undefined\<close>, and the code
  reads nothing of it but its string form, so it stands here as that string.
\<close>

definition member :: "runtime \<Rightarrow> jsobj \<Rightarrow> string \<Rightarrow> jsval" where
  "member rt row col =
     (case map_of row col of
        Some v \<Rightarrow> v
      | None \<Rightarrow> (case inherited rt col of Some s \<Rightarrow> JStr s | None \<Rightarrow> JUndef))"

section \<open>Utility functions\<close>

text \<open>\<^verbatim>\<open>arrayToCsv(data, columns)\<close>, lines 43 to 59.\<close>

definition newline :: char where
  "newline = CHR 0x0A"

definition csvField :: "runtime \<Rightarrow> jsobj \<Rightarrow> string \<Rightarrow> string" where
  "csvField rt row col =
     (let v = member rt row col in
      if v = JNull \<or> v = JUndef then []
      else
        (let s = toStr rt v in
         if includesStr s [dquote] \<or> includesStr s '','' then [dquote] @ doubleQuotes s @ [dquote]
         else s))"

definition arrayToCsv :: "runtime \<Rightarrow> jsobj list \<Rightarrow> string list \<Rightarrow> string" where
  "arrayToCsv rt data columns =
     (let header = join '','' columns @ [newline];
          rows = join [newline] (map (\<lambda>row. join '','' (map (csvField rt row) columns)) data)
      in header @ rows)"

text \<open>\<^verbatim>\<open>formatDateToYYYYMMDD(date)\<close>, lines 71 to 76; an invalid date has \<open>NaN\<close> fields.\<close>

definition formatDateToYYYYMMDD :: "runtime \<Rightarrow> jsdate \<Rightarrow> string" where
  "formatDateToYYYYMMDD rt date =
     (case date of
        InvalidDate \<Rightarrow> ''NaN-NaN-NaN''
      | DateT tv \<Rightarrow>
          (let (year, m, d) = civil (tv + localTZA rt)
           in showInt year @ ''-'' @ padStart2 (showInt (m + 1)) @ ''-'' @ padStart2 (showInt d)))"

text \<open>\<^verbatim>\<open>getTodayDateString()\<close>, lines 35 to 41.\<close>

definition getTodayDateString :: "runtime \<Rightarrow> string" where
  "getTodayDateString rt =
     (let (year, m, d) = civil (now rt + localTZA rt)
      in showInt year @ padStart2 (showInt (m + 1)) @ padStart2 (showInt d))"

text \<open>\<^verbatim>\<open>excelSerialDateToJSDate(serial)\<close>, lines 61 to 68.\<close>

definition excelSerialDateToJSDate :: "runtime \<Rightarrow> jsnum \<Rightarrow> jsdate" where
  "excelSerialDateToJSDate rt serial =
     (case serial of
        Fin m e \<Rightarrow>
          (case newDateMs ((numVal m e - 25569) * 86400 * 1000) of
             InvalidDate \<Rightarrow> InvalidDate
           | DateT utc \<Rightarrow> (let (y, mo, d) = civil utc in newDateYMD (localTZA rt) y mo d))
      | _ \<Rightarrow> InvalidDate)"

subsection \<open>Objects used as dictionaries, \<^verbatim>\<open>Map\<close> and \<^verbatim>\<open>Set\<close>\<close>

text \<open>
  A \<^verbatim>\<open>Map<string, V>\<close> keeps its keys in insertion order, and \<^verbatim>\<open>set\<close> on a key that
  is there replaces the value in place; assigning a property of an object does the same.
  A \<^verbatim>\<open>Set<string>\<close> is the list of its elements in insertion order.
\<close>

type_synonym 'v jsmap = "(string \<times> 'v) list"

definition mapHas :: "'v jsmap \<Rightarrow> string \<Rightarrow> bool" where
  "mapHas m k = (map_of m k \<noteq> None)"

definition mapSet :: "'v jsmap \<Rightarrow> string \<Rightarrow> 'v \<Rightarrow> 'v jsmap" where
  "mapSet m k v =
     (if mapHas m k then map (\<lambda>(k', v'). if k' = k then (k', v) else (k', v')) m
      else m @ [(k, v)])"

definition mapValues :: "'v jsmap \<Rightarrow> 'v list" where
  "mapValues m = map snd m"

definition setAdd :: "string list \<Rightarrow> string \<Rightarrow> string list" where
  "setAdd s x = (if x \<in> set s then s else s @ [x])"

section \<open>File type detection\<close>

datatype FileType =
  ITEM_MASTER | ITEM_MASTER_V2 | FACTS | STORE_ITEMS | STORE | STOCK | PRICE | UNKNOWN

text \<open>
  \<^verbatim>\<open>FILE_TYPE_DEFINITIONS\<close>, lines 80 to 88: the keywords of the seven defined types;
  \<^verbatim>\<open>UNKNOWN\<close> has no definition.
\<close>

fun keywordsOf :: "FileType \<Rightarrow> string list" where
  "keywordsOf STORE = [''Store UID*'']"
| "keywordsOf STORE_ITEMS = [''Store UID*'', ''Product UID*'', ''In assortment?'', ''Purchase price'']"
| "keywordsOf FACTS = [''Product UID*'', ''Store UID*'', ''Date*'']"
| "keywordsOf ITEM_MASTER_V2 = [''UID*'', ''Product name*'', ''Manufacturer UID'']"
| "keywordsOf ITEM_MASTER = [''UID*'', ''Product name*'', ''Barcode'', ''Manufacturer'']"
| "keywordsOf STOCK = [''StoreID'', ''ItemUID'', ''Quantity'']"
| "keywordsOf PRICE = [''ItemUID'', ''PriceList'', ''Price'']"
| "keywordsOf UNKNOWN = []"

definition FILE_TYPE_DEFINITIONS :: "FileType \<Rightarrow> string list option" where
  "FILE_TYPE_DEFINITIONS type = (if type = UNKNOWN then None else Some (keywordsOf type))"

definition typeCheckOrder :: "FileType list" where
  "typeCheckOrder = [ITEM_MASTER_V2, ITEM_MASTER, STORE_ITEMS, FACTS, STORE, STOCK, PRICE]"

text \<open>
  The spreadsheet reader is outside the repository. A sheet is what
  \<^verbatim>\<open>XLSX.utils.sheet_to_json(sheet, {header: 1, defval: null})\<close> returns for it:
  \<open>rawRows\<close> with typed cells, as detection reads it, and \<open>fmtRows\<close> under
  \<^verbatim>\<open>raw: false\<close>, as the processors read it. A workbook has its sheet names in order
  and its sheets by name.
\<close>

record sheet =
  rawRows :: "jsval list list"
  fmtRows :: "jsval list list"

record workbook =
  SheetNames :: "string list"
  Sheets :: "sheet jsmap"

definition isString :: "jsval \<Rightarrow> bool" where
  "isString v = (case v of JStr s \<Rightarrow> True | _ \<Rightarrow> False)"

text \<open>The test of line 108 on one row.\<close>

definition rowMatches :: "runtime \<Rightarrow> string list \<Rightarrow> jsval list \<Rightarrow> bool" where
  "rowMatches rt kws row =
     list_ex (\<lambda>cell. isString cell \<and> list_all (\<lambda>kw. includesStr (joinVals rt ''|'' row) kw) kws) row"

text \<open>The loop of lines 106 to 111 over the first 20 rows of a sheet.\<close>

definition sheetMatches :: "runtime \<Rightarrow> string list \<Rightarrow> sheet \<Rightarrow> bool" where
  "sheetMatches rt kws sh = list_ex (rowMatches rt kws) (take 20 (rawRows sh))"

text \<open>The loop of lines 101 to 113 over the sheet names; it returns at the first match.\<close>

fun findSheet :: "runtime \<Rightarrow> workbook \<Rightarrow> string list \<Rightarrow> string list \<Rightarrow> string option" where
  "findSheet rt wb kws [] = None"
| "findSheet rt wb kws (sheetName # rest) =
     (case map_of (Sheets wb) sheetName of
        None \<Rightarrow> findSheet rt wb kws rest
      | Some sh \<Rightarrow> if sheetMatches rt kws sh then Some sheetName else findSheet rt wb kws rest)"

text \<open>The loop of lines 97 to 114 over the types.\<close>

fun detectLoop :: "runtime \<Rightarrow> workbook \<Rightarrow> FileType list \<Rightarrow> FileType \<times> string option" where
  "detectLoop rt wb [] = (UNKNOWN, None)"
| "detectLoop rt wb (type # rest) =
     (case FILE_TYPE_DEFINITIONS type of
        None \<Rightarrow> detectLoop rt wb rest
      | Some kws \<Rightarrow>
          (case findSheet rt wb kws (SheetNames wb) of
             Some sheetName \<Rightarrow> (type, Some sheetName)
           | None \<Rightarrow> detectLoop rt wb rest))"

definition detectFileType :: "runtime \<Rightarrow> workbook \<Rightarrow> FileType \<times> string option" where
  "detectFileType rt wb = detectLoop rt wb typeCheckOrder"

section \<open>Specialized processors\<close>

text \<open>
  The processors throw; the model returns the error as a value. The status callback
  only reports and is left out.
\<close>

datatype error =
  SheetNotFound string
| HeaderRowNotFound FileType
| UnknownFileType
| NotImplemented FileType

record CsvFile =
  name :: string
  content :: string

text \<open>\<^verbatim>\<open>options.k ?? true\<close>.\<close>

type_synonym CsvGenerationOptions = "string \<Rightarrow> bool option"

definition optionOn :: "CsvGenerationOptions \<Rightarrow> string \<Rightarrow> bool" where
  "optionOn options k = (case options k of None \<Rightarrow> True | Some b \<Rightarrow> b)"

text \<open>
  The search for the header row, the same in every processor (lines 130 to 137):
  the first row with a string cell that contains one of the keywords.
\<close>

definition isHeaderRow :: "string list \<Rightarrow> jsval list \<Rightarrow> bool" where
  "isHeaderRow kws row =
     list_ex (\<lambda>cell. case cell of JStr s \<Rightarrow> list_ex (\<lambda>kw. includesStr s kw) kws | _ \<Rightarrow> False) row"

fun findHeaderRow :: "string list \<Rightarrow> jsval list list \<Rightarrow> nat option" where
  "findHeaderRow kws [] = None"
| "findHeaderRow kws (row # rows) =
     (if isHeaderRow kws row then Some 0 else map_option Suc (findHeaderRow kws rows))"

text \<open>\<^verbatim>\<open>rawData[headerRowIndex].map(h => String(h || '').trim())\<close>.\<close>

definition headerLabel :: "runtime \<Rightarrow> jsval \<Rightarrow> string" where
  "headerLabel rt h = trim (if truthy h then toStr rt h else [])"

text \<open>The row object built from the headers (lines 144 to 150).\<close>

definition trimCell :: "jsval \<Rightarrow> jsval" where
  "trimCell v = (case v of JStr s \<Rightarrow> JStr (trim s) | _ \<Rightarrow> v)"

definition toRowObject :: "string list \<Rightarrow> jsval list \<Rightarrow> jsobj" where
  "toRowObject headers row =
     fold (\<lambda>(header, index) rowObject.
             if header \<noteq> [] then mapSet rowObject header (trimCell (nthCell row index))
             else rowObject)
          (zip headers [0 ..< length headers]) []"

text \<open>
  The number expressions of the processors:
  \<^verbatim>\<open>parseInt(String(v), 10) || 0\<close>,
  \<^verbatim>\<open>parseFloat(String(v || d).replace(',', '.')) || 0\<close> and the same with \<^verbatim>\<open>|| null\<close>.
\<close>

definition parseIntOr0 :: "runtime \<Rightarrow> jsval \<Rightarrow> jsval" where
  "parseIntOr0 rt v =
     (let n = parseInt (toStr rt v) in if numTruthy n then JNum n else JNum (Fin 0 0))"

definition orDefault :: "jsval \<Rightarrow> string \<Rightarrow> jsval" where
  "orDefault v d = (if truthy v then v else JStr d)"

definition parseFloatOr0 :: "runtime \<Rightarrow> jsval \<Rightarrow> jsval" where
  "parseFloatOr0 rt v =
     (let n = parseFloat (replaceFirst CHR '','' CHR ''.'' (toStr rt v))
      in if numTruthy n then JNum n else JNum (Fin 0 0))"

definition parseFloatOrNull :: "runtime \<Rightarrow> jsval \<Rightarrow> jsval" where
  "parseFloatOrNull rt v =
     (let n = parseFloat (replaceFirst CHR '','' CHR ''.'' (toStr rt v))
      in if numTruthy n then JNum n else JNull)"

subsection \<open>Stores\<close>

definition storeRecord :: "runtime \<Rightarrow> jsobj \<Rightarrow> jsobj" where
  "storeRecord rt rowObject =
     [(''store_uid'', getProp rowObject ''Store UID*''),
      (''name'', getProp rowObject ''Store name*''),
      (''region'', getProp rowObject ''Region''),
      (''group_name'', getProp rowObject ''Group name''),
      (''floor_space'', parseIntOr0 rt (getProp rowObject ''Square'')),
      (''in_shelf'', parseIntOr0 rt (getProp rowObject ''In Shelf?'')),
      (''licence_start_date'', JStr ''2023-01-01''),
      (''is_deleted'', parseIntOr0 rt (getProp rowObject ''To delete''))]"

definition storesColumns :: "string list" where
  "storesColumns = [''store_uid'', ''name'', ''region'', ''group_name'', ''floor_space'',
                    ''in_shelf'', ''licence_start_date'', ''is_deleted'']"

definition processStoresFile :: "runtime \<Rightarrow> workbook \<Rightarrow> string \<Rightarrow> error + CsvFile list" where
  "processStoresFile rt wb sheetName =
     (case map_of (Sheets wb) sheetName of
        None \<Rightarrow> Inl (SheetNotFound sheetName)
      | Some worksheet \<Rightarrow>
          (let rawData = fmtRows worksheet in
           case findHeaderRow (keywordsOf STORE) rawData of
             None \<Rightarrow> Inl (HeaderRowNotFound STORE)
           | Some headerRowIndex \<Rightarrow>
               (let headers = map (headerLabel rt) (rawData ! headerRowIndex);
                    dataRows = drop (headerRowIndex + 1) rawData;
                    storesData = filter (\<lambda>r. truthy (getProp r ''store_uid''))
                                   (map (\<lambda>row. storeRecord rt (toRowObject headers row)) dataRows)
                in if storesData = [] then Inr []
                   else Inr [\<lparr>name = ''stores_'' @ getTodayDateString rt @ ''.csv'',
                              content = arrayToCsv rt storesData storesColumns\<rparr>])))"

subsection \<open>Store items\<close>

definition itemRecord :: "runtime \<Rightarrow> jsobj \<Rightarrow> jsobj" where
  "itemRecord rt rowObject =
     [(''store_uid'', getProp rowObject ''Store UID*''),
      (''item_uid'', getProp rowObject ''Product UID*''),
      (''is_active_planogram'', parseIntOr0 rt (getProp rowObject ''In assortment?'')),
      (''purchase_price'', parseFloatOrNull rt (orDefault (getProp rowObject ''Purchase price'') ''0'')),
      (''retail_price'', parseFloatOrNull rt (orDefault (getProp rowObject ''Sale price'') ''0'')),
      (''external_supplier_uid'', getProp rowObject ''Supplier UID'')]"

definition supplierRecord :: "jsobj \<Rightarrow> jsobj" where
  "supplierRecord rowObject =
     [(''supplier_uid'', getProp rowObject ''Supplier UID''),
      (''name'', getProp rowObject ''Supplier''),
      (''is_deleted'', JNum (Fin 0 0))]"

text \<open>The body of the loop of lines 205 to 236, on the pair of \<open>itemsData\<close> and \<open>suppliersMap\<close>.\<close>

definition storeItemsStep ::
  "runtime \<Rightarrow> jsobj \<Rightarrow> jsobj list \<times> jsobj jsmap \<Rightarrow> jsobj list \<times> jsobj jsmap" where
  "storeItemsStep rt rowObject st =
     (let (itemsData, suppliersMap) = st;
          storeUid = getProp rowObject ''Store UID*'';
          itemUid = getProp rowObject ''Product UID*''
      in if truthy storeUid \<and> truthy itemUid then
           (let supplierUid = getProp rowObject ''Supplier UID''
            in (itemsData @ [itemRecord rt rowObject],
                if truthy supplierUid \<and> \<not> mapHas suppliersMap (toStr rt supplierUid)
                then mapSet suppliersMap (toStr rt supplierUid) (supplierRecord rowObject)
                else suppliersMap))
         else st)"

definition itemsColumns :: "string list" where
  "itemsColumns = [''item_uid'', ''store_uid'', ''is_active_planogram'', ''purchase_price'',
                   ''retail_price'', ''external_supplier_uid'']"

definition processStoreItemsFile ::
  "runtime \<Rightarrow> workbook \<Rightarrow> string \<Rightarrow> CsvGenerationOptions \<Rightarrow> error + CsvFile list" where
  "processStoreItemsFile rt wb sheetName options =
     (case map_of (Sheets wb) sheetName of
        None \<Rightarrow> Inl (SheetNotFound sheetName)
      | Some worksheet \<Rightarrow>
          (let rawData = fmtRows worksheet in
           case findHeaderRow (keywordsOf STORE_ITEMS) rawData of
             None \<Rightarrow> Inl (HeaderRowNotFound STORE_ITEMS)
           | Some headerRowIndex \<Rightarrow>
               (let headers = map (headerLabel rt) (rawData ! headerRowIndex);
                    dataRows = drop (headerRowIndex + 1) rawData;
                    (itemsData, suppliersMap) =
                       fold (\<lambda>row. storeItemsStep rt (toRowObject headers row)) dataRows ([], []);
                    dateStr = getTodayDateString rt
                in if itemsData = [] then Inr []
                   else Inr
                     ([\<lparr>name = ''items_'' @ dateStr @ ''.csv'',
                        content = arrayToCsv rt itemsData itemsColumns\<rparr>]
                      @ (if optionOn options ''suppliers'' \<and> suppliersMap \<noteq> []
                         then [\<lparr>name = ''suppliers_'' @ dateStr @ ''.csv'',
                                content = arrayToCsv rt (mapValues suppliersMap)
                                            [''supplier_uid'', ''name'', ''is_deleted'']\<rparr>]
                         else [])))))"

subsection \<open>Facts\<close>

text \<open>The date of a row, lines 294 to 316: \<open>None\<close> is \<^verbatim>\<open>formattedDate = null\<close>.\<close>

definition parsedDate :: "runtime \<Rightarrow> jsval \<Rightarrow> jsdate option" where
  "parsedDate rt dateValue =
     (case dateParse rt (toStr rt dateValue) of
        InvalidDate \<Rightarrow> None
      | DateT t \<Rightarrow> Some (DateT t))"

definition jsDate :: "runtime \<Rightarrow> jsval \<Rightarrow> jsdate option" where
  "jsDate rt dateValue =
     (case dateValue of
        JDate (DateT t) \<Rightarrow> Some (DateT t)
      | JNum n \<Rightarrow>
          if numGreater1 n then Some (excelSerialDateToJSDate rt n)
          else parsedDate rt dateValue
      | _ \<Rightarrow> parsedDate rt dateValue)"

definition formattedDate :: "runtime \<Rightarrow> jsval \<Rightarrow> string option" where
  "formattedDate rt dateValue =
     (if truthy dateValue then
        (case jsDate rt dateValue of
           None \<Rightarrow> None
         | Some d \<Rightarrow> Some (formatDateToYYYYMMDD rt d))
      else None)"

definition factRecord :: "runtime \<Rightarrow> jsobj \<Rightarrow> jsobj" where
  "factRecord rt rowObject =
     [(''item_uid'', getProp rowObject ''Product UID*''),
      (''store_uid'', getProp rowObject ''Store UID*''),
      (''date'', case formattedDate rt (getProp rowObject ''Date*'') of
                   None \<Rightarrow> JNull | Some s \<Rightarrow> JStr s),
      (''stock'', parseFloatOrNull rt (orDefault (getProp rowObject ''Stock'') ''0'')),
      (''sold_qty'', parseFloatOrNull rt (orDefault (getProp rowObject ''Out sale'') ''0'')),
      (''revenue'', parseFloatOrNull rt (orDefault (getProp rowObject ''Revenue'') ''0'')),
      (''cogs'', parseFloatOrNull rt (orDefault (getProp rowObject ''COGS'') ''0''))]"

definition factKept :: "jsobj \<Rightarrow> bool" where
  "factKept r =
     (truthy (getProp r ''item_uid'') \<and> truthy (getProp r ''store_uid'') \<and> truthy (getProp r ''date''))"

definition factsColumns :: "string list" where
  "factsColumns = [''item_uid'', ''store_uid'', ''date'', ''stock'', ''sold_qty'', ''revenue'', ''cogs'']"

text \<open>The rows that \<^verbatim>\<open>processFactsFile\<close> keeps, lines 285 to 327.\<close>

definition factsData :: "runtime \<Rightarrow> string list \<Rightarrow> jsval list list \<Rightarrow> jsobj list" where
  "factsData rt headers dataRows =
     filter factKept (map (\<lambda>row. factRecord rt (toRowObject headers row)) dataRows)"

definition processFactsFile :: "runtime \<Rightarrow> workbook \<Rightarrow> string \<Rightarrow> error + CsvFile list" where
  "processFactsFile rt wb sheetName =
     (case map_of (Sheets wb) sheetName of
        None \<Rightarrow> Inl (SheetNotFound sheetName)
      | Some worksheet \<Rightarrow>
          (let rawData = fmtRows worksheet in
           case findHeaderRow (keywordsOf FACTS) rawData of
             None \<Rightarrow> Inl (HeaderRowNotFound FACTS)
           | Some headerRowIndex \<Rightarrow>
               (let headers = map (headerLabel rt) (rawData ! headerRowIndex);
                    dataRows = drop (headerRowIndex + 1) rawData;
                    facts = factsData rt headers dataRows
                in if facts = [] then Inr []
                   else Inr [\<lparr>name = ''facts_'' @ getTodayDateString rt @ ''.csv'',
                              content = arrayToCsv rt facts factsColumns\<rparr>])))"

subsection \<open>Item master, first format\<close>

text \<open>\<^verbatim>\<open>v === null || v === undefined || String(v).trim() === ''\<close>.\<close>

definition blank :: "runtime \<Rightarrow> jsval \<Rightarrow> bool" where
  "blank rt v = (v = JNull \<or> v = JUndef \<or> trim (toStr rt v) = [])"

text \<open>The main unit of an item, lines 396 to 404, from the value of the main unit column.\<close>

definition mainUnitUid :: "runtime \<Rightarrow> string \<Rightarrow> jsobj \<Rightarrow> jsval \<Rightarrow> jsval" where
  "mainUnitUid rt uid row main_unit_uid =
     (if blank rt main_unit_uid then
        (let unitName = getProp row ''Unit''
         in if truthy unitName \<and> trim (toStr rt unitName) \<noteq> []
            then JStr (uid @ ''_'' @ trim (toStr rt unitName))
            else JStr (uid @ ''_01''))
      else main_unit_uid)"

record itemMasterState =
  masteritemsData :: "jsobj list"
  barcodesData :: "jsobj list"
  dimensionsData :: "jsobj list"
  seenBrands :: "string list"
  seenManufacturers :: "string list"
  seenErpCategories :: "jsobj jsmap"
  seenUids :: "string list"

definition masterItem :: "runtime \<Rightarrow> string \<Rightarrow> jsobj \<Rightarrow> jsobj" where
  "masterItem rt uid row =
     [(''item_uid'', JStr uid),
      (''name'', getProp row ''Product name*''),
      (''manufacturer_uid'', getProp row ''Manufacturer''),
      (''brand_uid'', getProp row ''Brand''),
      (''is_fractional'',
         if truthy (getProp row ''Is fractional?'') then parseIntOr0 rt (getProp row ''Is fractional?'')
         else JNum (Fin 0 0)),
      (''additional_1'', getProp row ''Segment Description''),
      (''additional_2'', getProp row ''Family Description''),
      (''additional_3'', getProp row ''Class Description''),
      (''additional_4'', getProp row ''Brick Description''),
      (''main_unit_uid'', mainUnitUid rt uid row (getProp row ''Main Unit UID'')),
      (''erp_category_uid'', getProp row ''Brick Code'')]"

definition barcodeRecord :: "string \<Rightarrow> jsobj \<Rightarrow> jsobj" where
  "barcodeRecord uid row =
     [(''item_uid'', JStr uid), (''barcode'', getProp row ''Barcode''), (''is_main'', JNum (Fin 1 0))]"

definition dimensionRecord :: "runtime \<Rightarrow> string \<Rightarrow> jsobj \<Rightarrow> jsobj" where
  "dimensionRecord rt uid row =
     [(''item_uid'', JStr uid),
      (''unit_name'', getProp row ''Unit''),
      (''width'', parseFloatOr0 rt (orDefault (getProp row ''Width'') [])),
      (''height'', parseFloatOr0 rt (orDefault (getProp row ''Height'') [])),
      (''depth'', parseFloatOr0 rt (orDefault (getProp row ''Length'') [])),
      (''netweight'', parseFloatOrNull rt (orDefault (getProp row ''Netweight'') [])),
      (''volume'', parseFloatOrNull rt (orDefault (getProp row ''Volume'') [])),
      (''dimension_uid'', mainUnitUid rt uid row (getProp row ''Main Unit UID'')),
      (''coef'', JNum (Fin 1 0)),
      (''is_deleted'', JNum (Fin 0 0))]"

text \<open>
  The categories of a row, lines 413 to 419: the four levels in order, each registered
  when its code is new, with the code column of the level before as parent.
\<close>

definition levelMapping :: "string list" where
  "levelMapping = [''Segment'', ''Family'', ''Class'', ''Brick'']"

definition categoryStep :: "runtime \<Rightarrow> jsobj \<Rightarrow> nat \<Rightarrow> jsobj jsmap \<Rightarrow> jsobj jsmap" where
  "categoryStep rt row index seen =
     (let levelName = levelMapping ! index;
          catUid = getProp row (levelName @ '' Code'')
      in if truthy catUid \<and> \<not> mapHas seen (toStr rt catUid) then
           mapSet seen (toStr rt catUid)
             [(''erp_category_uid'', catUid),
              (''name'', getProp row (levelName @ '' Description'')),
              (''parent_category_uid'',
                 if 0 < index then getProp row (levelMapping ! (index - 1) @ '' Code'') else JNull)]
         else seen)"

text \<open>The body of the loop of lines 390 to 421.\<close>

definition itemMasterStep :: "runtime \<Rightarrow> jsobj \<Rightarrow> itemMasterState \<Rightarrow> itemMasterState" where
  "itemMasterStep rt row st =
     (let uidValue = getProp row ''UID*'' in
      if uidValue = JNull \<or> uidValue = JUndef then st
      else
        (let uid = trim (toStr rt uidValue) in
         if uid = [] then st
         else
           \<lparr>masteritemsData =
              (if uid \<notin> set (seenUids st) then masteritemsData st @ [masterItem rt uid row]
               else masteritemsData st),
            barcodesData =
              (if truthy (getProp row ''Barcode'') then barcodesData st @ [barcodeRecord uid row]
               else barcodesData st),
            dimensionsData =
              (if truthy (getProp row ''Unit'') then dimensionsData st @ [dimensionRecord rt uid row]
               else dimensionsData st),
            seenBrands =
              (if truthy (getProp row ''Brand'') then setAdd (seenBrands st) (toStr rt (getProp row ''Brand''))
               else seenBrands st),
            seenManufacturers =
              (if truthy (getProp row ''Manufacturer'')
               then setAdd (seenManufacturers st) (toStr rt (getProp row ''Manufacturer''))
               else seenManufacturers st),
            seenErpCategories = fold (categoryStep rt row) [0, 1, 2, 3] (seenErpCategories st),
            seenUids = setAdd (seenUids st) uid\<rparr>))"

definition emptyItemMasterState :: itemMasterState where
  "emptyItemMasterState =
     \<lparr>masteritemsData = [], barcodesData = [], dimensionsData = [], seenBrands = [],
      seenManufacturers = [], seenErpCategories = [], seenUids = []\<rparr>"

text \<open>The loop over \<^verbatim>\<open>df_template\<close>.\<close>

definition itemMasterRows :: "runtime \<Rightarrow> jsobj list \<Rightarrow> itemMasterState" where
  "itemMasterRows rt df_template = fold (itemMasterStep rt) df_template emptyItemMasterState"

text \<open>
  Lines 366 to 374: the data starts at the first row after the header with a cell that
  is not \<^verbatim>\<open>null\<close> and not blank.
\<close>

definition hasData :: "runtime \<Rightarrow> jsval list \<Rightarrow> bool" where
  "hasData rt row = list_ex (\<lambda>cell. cell \<noteq> JNull \<and> trim (toStr rt cell) \<noteq> []) row"

definition nameRecords :: "string \<Rightarrow> string list \<Rightarrow> jsobj list" where
  "nameRecords uidCol xs =
     map (\<lambda>b. [(uidCol, JStr b), (''name'', JStr b), (''is_deleted'', JNum (Fin 0 0))]) xs"

definition csvIf :: "bool \<Rightarrow> string \<Rightarrow> string \<Rightarrow> CsvFile list" where
  "csvIf c n text = (if c then [\<lparr>name = n, content = text\<rparr>] else [])"

definition processItemMasterFile ::
  "runtime \<Rightarrow> workbook \<Rightarrow> string \<Rightarrow> CsvGenerationOptions \<Rightarrow> error + CsvFile list" where
  "processItemMasterFile rt wb sheetName options =
     (case map_of (Sheets wb) sheetName of
        None \<Rightarrow> Inl (SheetNotFound sheetName)
      | Some worksheet \<Rightarrow>
          (let rawData = fmtRows worksheet in
           case findHeaderRow (keywordsOf ITEM_MASTER) rawData of
             None \<Rightarrow> Inl (HeaderRowNotFound ITEM_MASTER)
           | Some headerRowIndex \<Rightarrow>
               (let headers = map (headerLabel rt) (rawData ! headerRowIndex);
                    dataRows = dropWhile (\<lambda>row. \<not> hasData rt row) (drop (headerRowIndex + 1) rawData);
                    st = itemMasterRows rt (map (toRowObject headers) dataRows);
                    dateStr = getTodayDateString rt
                in if masteritemsData st = [] then Inr []
                   else Inr
                     ([\<lparr>name = ''masteritems_'' @ dateStr @ ''.csv'',
                        content = arrayToCsv rt (masteritemsData st)
                          [''item_uid'', ''name'', ''manufacturer_uid'', ''brand_uid'', ''is_fractional'',
                           ''additional_1'', ''additional_2'', ''additional_3'', ''additional_4'',
                           ''main_unit_uid'', ''erp_category_uid'']\<rparr>]
                      @ csvIf (optionOn options ''barcodes'' \<and> barcodesData st \<noteq> [])
                          (''barcodes_'' @ dateStr @ ''.csv'')
                          (arrayToCsv rt (barcodesData st) [''item_uid'', ''barcode'', ''is_main''])
                      @ csvIf (optionOn options ''brands'' \<and> seenBrands st \<noteq> [])
                          (''brands_'' @ dateStr @ ''.csv'')
                          (arrayToCsv rt (nameRecords ''brand_uid'' (seenBrands st))
                             [''brand_uid'', ''name'', ''is_deleted''])
                      @ csvIf (optionOn options ''dimensions'' \<and> dimensionsData st \<noteq> [])
                          (''dimensions_'' @ dateStr @ ''.csv'')
                          (arrayToCsv rt (dimensionsData st)
                             [''item_uid'', ''unit_name'', ''width'', ''height'', ''depth'', ''netweight'',
                              ''volume'', ''dimension_uid'', ''coef'', ''is_deleted''])
                      @ csvIf (optionOn options ''erpcategories'' \<and> seenErpCategories st \<noteq> [])
                          (''erpcategories_'' @ dateStr @ ''.csv'')
                          (arrayToCsv rt (mapValues (seenErpCategories st))
                             [''erp_category_uid'', ''name'', ''parent_category_uid''])
                      @ csvIf (optionOn options ''manufacturers'' \<and> seenManufacturers st \<noteq> [])
                          (''manufacturers_'' @ dateStr @ ''.csv'')
                          (arrayToCsv rt (nameRecords ''manufacturer_uid'' (seenManufacturers st))
                             [''manufacturer_uid'', ''name'', ''is_deleted''])))))"

subsection \<open>Item master, second format\<close>

definition levelUidCol :: "nat \<Rightarrow> string" where
  "levelUidCol level = ''Category level '' @ showNat level @ '' UID''"

definition levelNameCol :: "nat \<Rightarrow> string" where
  "levelNameCol level = ''Category level '' @ showNat level"

text \<open>The category of the item, lines 487 to 505: the deepest level with a UID, else with a name.\<close>

definition erpCategoryUid :: "runtime \<Rightarrow> jsobj \<Rightarrow> jsval" where
  "erpCategoryUid rt row =
     (case find (\<lambda>i. \<not> blank rt (getProp row (levelUidCol i))) [6, 5, 4, 3, 2, 1] of
        Some i \<Rightarrow> getProp row (levelUidCol i)
      | None \<Rightarrow>
          (case find (\<lambda>i. \<not> blank rt (getProp row (levelNameCol i))) [6, 5, 4, 3, 2, 1] of
             Some i \<Rightarrow> getProp row (levelNameCol i)
           | None \<Rightarrow> JNull))"

text \<open>
  The identity of a brand, a manufacturer or a category level (lines 517 to 533 and
  591 to 597): the UID column when it is not blank, else the name column when it is not
  blank, else \<^verbatim>\<open>null\<close>.
\<close>

definition effectiveUid :: "runtime \<Rightarrow> jsval \<Rightarrow> jsval \<Rightarrow> jsval" where
  "effectiveUid rt uidValue nameValue =
     (if \<not> blank rt uidValue then uidValue
      else if \<not> blank rt nameValue then nameValue
      else JNull)"

definition orElse :: "jsval \<Rightarrow> jsval \<Rightarrow> jsval" where
  "orElse a b = (if truthy a then a else b)"

definition additionalNumeric :: "nat list" where
  "additionalNumeric = [1, 5, 6, 8, 9, 10, 11, 12, 13, 14, 15, 16, 17, 18, 19, 20]"

definition additional :: "runtime \<Rightarrow> jsobj \<Rightarrow> nat \<Rightarrow> string \<times> jsval" where
  "additional rt row i =
     (''additional_'' @ showNat i,
      if i \<in> set additionalNumeric then parseFloatOrNull rt (getProp row (''Add '' @ showNat i))
      else getProp row (''Add '' @ showNat i))"

definition masterItemV2 :: "runtime \<Rightarrow> jsobj \<Rightarrow> jsobj" where
  "masterItemV2 rt row =
     (let item_uid = toStr rt (getProp row ''UID*'') in
      [(''item_uid'', JStr item_uid),
       (''name'', getProp row ''Product name*''),
       (''manufacturer_uid'', effectiveUid rt (getProp row ''Manufacturer UID'') (getProp row ''Manufacturer'')),
       (''brand_uid'', effectiveUid rt (getProp row ''Brand UID'') (getProp row ''Brand'')),
       (''is_fractional'', parseIntOr0 rt (getProp row ''Is fractional?'')),
       (''main_unit_uid'',
          mainUnitUid rt item_uid row (orElse (getProp row ''Main Unit UID'') (getProp row ''Main unit UID''))),
       (''is_deleted'', parseIntOr0 rt (getProp row ''To delete''))]
      @ map (additional rt row) [1 ..< 21]
      @ [(''erp_category_uid'', erpCategoryUid rt row)])"

definition dimensionRecordV2 :: "runtime \<Rightarrow> jsobj \<Rightarrow> jsobj" where
  "dimensionRecordV2 rt row =
     (let item_uid = toStr rt (getProp row ''UID*'') in
      [(''item_uid'', JStr item_uid),
       (''unit_name'', getProp row ''Unit''),
       (''width'', parseFloatOrNull rt (orDefault (getProp row ''Width (cm, in)'') [])),
       (''height'', parseFloatOrNull rt (orDefault (getProp row ''Height (cm, in)'') [])),
       (''depth'', parseFloatOrNull rt (orDefault (getProp row ''Depth (cm, in)'') [])),
       (''coef'', JNum (Fin 1 0)),
       (''is_deleted'', JNum (Fin 0 0)),
       (''dimension_uid'',
          mainUnitUid rt item_uid row (orElse (getProp row ''Main Unit UID'') (getProp row ''Main unit UID'')))])"

text \<open>
  Brands and manufacturers, lines 562 to 571 and 614 to 623: the first row with an
  identity makes its entry.
\<close>

definition namedStep ::
  "runtime \<Rightarrow> string \<Rightarrow> jsval \<Rightarrow> jsval \<Rightarrow> jsobj jsmap \<Rightarrow> jsobj jsmap" where
  "namedStep rt uidCol uidValue nameValue m =
     (let effective = effectiveUid rt uidValue nameValue in
      if effective \<noteq> JNull \<and> \<not> mapHas m (toStr rt effective) then
        mapSet m (toStr rt effective)
          [(uidCol, effective), (''name'', orElse nameValue effective), (''is_deleted'', JNum (Fin 0 0))]
      else m)"

definition brandStep :: "runtime \<Rightarrow> jsobj \<Rightarrow> jsobj jsmap \<Rightarrow> jsobj jsmap" where
  "brandStep rt row m = namedStep rt ''brand_uid'' (getProp row ''Brand UID'') (getProp row ''Brand'') m"

definition manufacturerStep :: "runtime \<Rightarrow> jsobj \<Rightarrow> jsobj jsmap \<Rightarrow> jsobj jsmap" where
  "manufacturerStep rt row m =
     namedStep rt ''manufacturer_uid'' (getProp row ''Manufacturer UID'') (getProp row ''Manufacturer'') m"

text \<open>
  The category levels of a row, lines 583 to 612: \<open>previous\<close> is
  \<^verbatim>\<open>previousLevelEffectiveUid\<close>, \<open>m\<close> is \<^verbatim>\<open>erpCategoriesMap\<close>.
\<close>

definition categoryEntry :: "jsval \<Rightarrow> jsval \<Rightarrow> jsval \<Rightarrow> jsobj" where
  "categoryEntry current currentNameValue previous =
     [(''erp_category_uid'', current), (''name'', currentNameValue), (''parent_category_uid'', previous)]"

fun categoryLevels ::
  "runtime \<Rightarrow> jsobj \<Rightarrow> nat list \<Rightarrow> jsval \<Rightarrow> jsobj jsmap \<Rightarrow> jsobj jsmap" where
  "categoryLevels rt row [] previous m = m"
| "categoryLevels rt row (level # levels) previous m =
     (let currentUidValue = getProp row (levelUidCol level);
          currentNameValue = getProp row (levelNameCol level);
          current = effectiveUid rt currentUidValue currentNameValue
      in if current \<noteq> JNull then
           (let key = toStr rt current;
                replace = (case map_of m key of
                             None \<Rightarrow> True
                           | Some existingEntry \<Rightarrow>
                               getProp existingEntry ''name'' = JNull \<and> currentNameValue \<noteq> JNull)
            in categoryLevels rt row levels current
                 (if replace then mapSet m key (categoryEntry current currentNameValue previous) else m))
         else categoryLevels rt row levels previous m)"

definition categoriesStep :: "runtime \<Rightarrow> jsobj \<Rightarrow> jsobj jsmap \<Rightarrow> jsobj jsmap" where
  "categoriesStep rt row m = categoryLevels rt row [1, 2, 3, 4, 5, 6] JNull m"

record itemMasterV2State =
  masteritemsDataV2 :: "jsobj list"
  barcodesDataV2 :: "jsobj list"
  dimensionsDataV2 :: "jsobj list"
  brandsMap :: "jsobj jsmap"
  manufacturersMap :: "jsobj jsmap"
  erpCategoriesMap :: "jsobj jsmap"

text \<open>The body of the loop of lines 484 to 624.\<close>

definition itemMasterV2Step :: "runtime \<Rightarrow> jsobj \<Rightarrow> itemMasterV2State \<Rightarrow> itemMasterV2State" where
  "itemMasterV2Step rt row st =
     \<lparr>masteritemsDataV2 = masteritemsDataV2 st @ [masterItemV2 rt row],
      barcodesDataV2 =
        (if truthy (getProp row ''Barcode'')
         then barcodesDataV2 st @ [barcodeRecord (toStr rt (getProp row ''UID*'')) row]
         else barcodesDataV2 st),
      dimensionsDataV2 =
        (if truthy (getProp row ''Unit'') then dimensionsDataV2 st @ [dimensionRecordV2 rt row]
         else dimensionsDataV2 st),
      brandsMap = brandStep rt row (brandsMap st),
      manufacturersMap = manufacturerStep rt row (manufacturersMap st),
      erpCategoriesMap = categoriesStep rt row (erpCategoriesMap st)\<rparr>"

definition emptyItemMasterV2State :: itemMasterV2State where
  "emptyItemMasterV2State =
     \<lparr>masteritemsDataV2 = [], barcodesDataV2 = [], dimensionsDataV2 = [], brandsMap = [],
      manufacturersMap = [], erpCategoriesMap = []\<rparr>"

text \<open>\<^verbatim>\<open>df_template\<close>, lines 465 to 474: the rows with an item id.\<close>

definition dfTemplateV2 :: "runtime \<Rightarrow> string list \<Rightarrow> jsval list list \<Rightarrow> jsobj list" where
  "dfTemplateV2 rt headers dataRows =
     filter (\<lambda>row. \<not> blank rt (getProp row ''UID*'')) (map (toRowObject headers) dataRows)"

definition itemMasterV2Rows :: "runtime \<Rightarrow> jsobj list \<Rightarrow> itemMasterV2State" where
  "itemMasterV2Rows rt df_template = fold (itemMasterV2Step rt) df_template emptyItemMasterV2State"

definition masteritems_cols :: "string list" where
  "masteritems_cols =
     [''item_uid'', ''name'', ''manufacturer_uid'', ''brand_uid'', ''is_fractional'']
     @ map (\<lambda>i. ''additional_'' @ showNat i) [1 ..< 21]
     @ [''main_unit_uid'', ''erp_category_uid'', ''is_deleted'']"

definition processItemMasterV2File ::
  "runtime \<Rightarrow> workbook \<Rightarrow> string \<Rightarrow> CsvGenerationOptions \<Rightarrow> error + CsvFile list" where
  "processItemMasterV2File rt wb sheetName options =
     (case map_of (Sheets wb) sheetName of
        None \<Rightarrow> Inl (SheetNotFound sheetName)
      | Some worksheet \<Rightarrow>
          (let rawData = fmtRows worksheet in
           case findHeaderRow (keywordsOf ITEM_MASTER_V2) rawData of
             None \<Rightarrow> Inl (HeaderRowNotFound ITEM_MASTER_V2)
           | Some headerRowIndex \<Rightarrow>
               (let headers = map (headerLabel rt) (rawData ! headerRowIndex);
                    dataRows = drop (headerRowIndex + 1) rawData;
                    df_template = dfTemplateV2 rt headers dataRows;
                    st = itemMasterV2Rows rt df_template;
                    dateStr = getTodayDateString rt
                in if df_template = [] then Inr []
                   else Inr
                     ([\<lparr>name = ''masteritems_'' @ dateStr @ ''.csv'',
                        content = arrayToCsv rt (masteritemsDataV2 st) masteritems_cols\<rparr>]
                      @ csvIf (optionOn options ''barcodes'' \<and> barcodesDataV2 st \<noteq> [])
                          (''barcodes_'' @ dateStr @ ''.csv'')
                          (arrayToCsv rt (barcodesDataV2 st) [''item_uid'', ''barcode'', ''is_main''])
                      @ csvIf (optionOn options ''brands'' \<and> brandsMap st \<noteq> [])
                          (''brands_'' @ dateStr @ ''.csv'')
                          (arrayToCsv rt (mapValues (brandsMap st)) [''brand_uid'', ''name'', ''is_deleted''])
                      @ csvIf (optionOn options ''dimensions'' \<and> dimensionsDataV2 st \<noteq> [])
                          (''dimensions_'' @ dateStr @ ''.csv'')
                          (arrayToCsv rt (dimensionsDataV2 st)
                             [''item_uid'', ''unit_name'', ''width'', ''height'', ''depth'', ''coef'',
                              ''is_deleted'', ''dimension_uid''])
                      @ csvIf (optionOn options ''erpcategories'' \<and> erpCategoriesMap st \<noteq> [])
                          (''erpcategories_'' @ dateStr @ ''.csv'')
                          (arrayToCsv rt (mapValues (erpCategoriesMap st))
                             [''erp_category_uid'', ''name'', ''parent_category_uid''])
                      @ csvIf (optionOn options ''manufacturers'' \<and> manufacturersMap st \<noteq> [])
                          (''manufacturers_'' @ dateStr @ ''.csv'')
                          (arrayToCsv rt (mapValues (manufacturersMap st))
                             [''manufacturer_uid'', ''name'', ''is_deleted''])))))"

section \<open>Main dispatcher\<close>

text \<open>
  \<^verbatim>\<open>generateCsvsFromExcel\<close>, lines 645 to 687, from the workbook that \<^verbatim>\<open>XLSX.read\<close>
  returns. \<^verbatim>\<open>!sheetName\<close> holds for \<^verbatim>\<open>null\<close> and for the empty string.
\<close>

definition generateCsvsFromExcel ::
  "runtime \<Rightarrow> workbook \<Rightarrow> CsvGenerationOptions \<Rightarrow> error + CsvFile list \<times> FileType" where
  "generateCsvsFromExcel rt wb options =
     (case detectFileType rt wb of
        (detectedType, None) \<Rightarrow> Inl UnknownFileType
      | (detectedType, Some sheetName) \<Rightarrow>
          if detectedType = UNKNOWN \<or> sheetName = [] then Inl UnknownFileType
          else
            (let csvFiles =
               (case detectedType of
                  STORE \<Rightarrow> processStoresFile rt wb sheetName
                | STORE_ITEMS \<Rightarrow> processStoreItemsFile rt wb sheetName options
                | ITEM_MASTER \<Rightarrow> processItemMasterFile rt wb sheetName options
                | ITEM_MASTER_V2 \<Rightarrow> processItemMasterV2File rt wb sheetName options
                | FACTS \<Rightarrow> processFactsFile rt wb sheetName
                | STOCK \<Rightarrow> Inl (NotImplemented detectedType)
                | PRICE \<Rightarrow> Inl (NotImplemented detectedType)
                | UNKNOWN \<Rightarrow> Inr [])
             in case csvFiles of
                  Inl e \<Rightarrow> Inl e
                | Inr files \<Rightarrow> Inr (files, detectedType)))"

section \<open>Properties of the dispatcher\<close>

lemma findSheet_mem: "findSheet rt wb kws names = Some sn \<Longrightarrow> sn \<in> set names"
  by (induction names) (auto split: option.splits if_splits)

lemma detectLoop_sheet:
  "detectLoop rt wb ts = (t, sn) \<Longrightarrow> t \<noteq> UNKNOWN \<Longrightarrow> \<exists>s. sn = Some s \<and> s \<in> set (SheetNames wb)"
proof (induction ts)
  case Nil
  then show ?case by simp
next
  case (Cons a ts)
  show ?case
  proof (cases "FILE_TYPE_DEFINITIONS a")
    case None
    with Cons show ?thesis by simp
  next
    case (Some kws)
    show ?thesis
    proof (cases "findSheet rt wb kws (SheetNames wb)")
      case None
      with Some Cons show ?thesis by simp
    next
      case (Some s)
      with \<open>FILE_TYPE_DEFINITIONS a = Some kws\<close> Cons.prems have "sn = Some s"
        by simp
      with Some show ?thesis
        by (auto dest: findSheet_mem)
    qed
  qed
qed

text \<open>
  A runtime for examples: UTC, a \<^verbatim>\<open>Date.parse\<close> that rejects every string, the clock at 0,
  and the members of \<^verbatim>\<open>Object.prototype\<close> with the string forms that V8 gives them.
\<close>

definition nativeCode :: "string \<Rightarrow> string" where
  "nativeCode f = ''function '' @ f @ ''() { [native code] }''"

definition objectPrototype :: "(string \<times> string) list" where
  "objectPrototype =
     (''constructor'', nativeCode ''Object'') # (''__proto__'', ''[object Object]'')
     # map (\<lambda>f. (f, nativeCode f))
         [''__defineGetter__'', ''__defineSetter__'', ''hasOwnProperty'', ''__lookupGetter__'',
          ''__lookupSetter__'', ''isPrototypeOf'', ''propertyIsEnumerable'', ''toString'',
          ''valueOf'', ''toLocaleString'']"

definition utcRuntime :: runtime where
  "utcRuntime =
     \<lparr>localTZA = 0, dateParse = (\<lambda>s. InvalidDate), now = 0, inherited = map_of objectPrototype\<rparr>"

text \<open>A workbook whose only sheet has the keywords of \<open>STOCK\<close> and the empty name.\<close>

definition unnamedWorkbook :: workbook where
  "unnamedWorkbook =
     \<lparr>SheetNames = [[]],
      Sheets = [([], \<lparr>rawRows = [[JStr ''StoreID'', JStr ''ItemUID'', JStr ''Quantity'']],
                     fmtRows = [[JStr ''StoreID'', JStr ''ItemUID'', JStr ''Quantity'']]\<rparr>)]\<rparr>"

text \<open>
  C9, as stated, fails: the detected type is \<open>STOCK\<close>, and the error is the "unknown
  file type" one of line 659, since \<^verbatim>\<open>!sheetName\<close> holds for the empty name.
\<close>

theorem stock_unnamed_sheet_unknown:
  "detectFileType utcRuntime unnamedWorkbook = (STOCK, Some []) \<and>
   generateCsvsFromExcel utcRuntime unnamedWorkbook Map.empty = Inl UnknownFileType \<and>
   generateCsvsFromExcel utcRuntime unnamedWorkbook Map.empty \<noteq> Inl (NotImplemented STOCK)"
  by (simp add: generateCsvsFromExcel_def detectFileType_def typeCheckOrder_def
      FILE_TYPE_DEFINITIONS_def unnamedWorkbook_def sheetMatches_def rowMatches_def isString_def
      joinVals_def joinCell_def)

text \<open>
  C9, amended: when detection returns \<open>STOCK\<close> or \<open>PRICE\<close>, it returns a sheet of the
  workbook with it, and the dispatcher returns an error and no CSV file, whatever the
  options: the "not yet implemented" error of the type, except when the sheet that
  matched has the empty name, where it is the "unknown file type" error.
\<close>

theorem stock_price_not_implemented:
  assumes "detectFileType rt wb = (t, sn)" and "t = STOCK \<or> t = PRICE"
  shows "(\<exists>s. sn = Some s \<and> s \<in> set (SheetNames wb)) \<and>
         generateCsvsFromExcel rt wb options
           = (if sn = Some [] then Inl UnknownFileType else Inl (NotImplemented t))"
proof -
  from assms have "t \<noteq> UNKNOWN" by auto
  with assms(1) obtain s where s: "sn = Some s" "s \<in> set (SheetNames wb)"
    unfolding detectFileType_def by (blast dest: detectLoop_sheet)
  show ?thesis
    using assms s by (auto simp: generateCsvsFromExcel_def)
qed

text \<open>A workbook with a sheet of notes under the empty name before the sheet of the stock.\<close>

definition stockWorkbook :: workbook where
  "stockWorkbook =
     \<lparr>SheetNames = [[], ''Stock''],
      Sheets = [([], \<lparr>rawRows = [[JStr ''Notes'']], fmtRows = [[JStr ''Notes'']]\<rparr>),
                (''Stock'', \<lparr>rawRows = [[JStr ''StoreID'', JStr ''ItemUID'', JStr ''Quantity'']],
                             fmtRows = [[JStr ''StoreID'', JStr ''ItemUID'', JStr ''Quantity'']]\<rparr>)]\<rparr>"

lemma detect_stockWorkbook: "detectFileType utcRuntime stockWorkbook = (STOCK, Some ''Stock'')"
  by (simp add: detectFileType_def typeCheckOrder_def FILE_TYPE_DEFINITIONS_def stockWorkbook_def
      sheetMatches_def rowMatches_def isString_def joinVals_def joinCell_def)

theorem stock_price_not_implemented_witness:
  "detectFileType utcRuntime stockWorkbook = (STOCK, Some ''Stock'') \<and>
   ''Stock'' \<in> set (SheetNames stockWorkbook) \<and>
   generateCsvsFromExcel utcRuntime stockWorkbook Map.empty = Inl (NotImplemented STOCK)"
  using stock_price_not_implemented [OF detect_stockWorkbook, of "Map.empty"] detect_stockWorkbook
  by simp

section \<open>Properties of the CSV serializer\<close>

lemma includesStr_single: "includesStr s [c] = (c \<in> set s)"
  by (induction s) auto

lemma csvField_cases:
  "csvField rt row col =
     (let v = member rt row col; s = toStr rt v in
      if v = JNull \<or> v = JUndef then []
      else if CHR '','' \<in> set s \<or> CHR 0x22 \<in> set s
        then [CHR 0x22] @ concat (map (\<lambda>c. if c = CHR 0x22 then [CHR 0x22, CHR 0x22] else [c]) s)
             @ [CHR 0x22]
      else s)"
proof -
  have "doubleQuotes s = concat (map (\<lambda>c. if c = CHR 0x22 then [CHR 0x22, CHR 0x22] else [c]) s)"
    for s
    by (simp only: doubleQuotes_def dquote_def)
  then show ?thesis
    by (auto simp: csvField_def Let_def includesStr_single dquote_def)
qed

lemma csvField_cong: "member rt r' c = member rt r c \<Longrightarrow> csvField rt r' c = csvField rt r c"
  by (simp add: csvField_def)

lemma arrayToCsv_cong:
  assumes eq: "map (\<lambda>r. map (member rt r) columns) data' = map (\<lambda>r. map (member rt r) columns) data"
  shows "arrayToCsv rt data' columns = arrayToCsv rt data columns"
proof -
  let ?line = "\<lambda>row. join '','' (map (csvField rt row) columns)"
  from eq have len: "length data' = length data"
    by (metis length_map)
  have "map ?line data' = map ?line data"
  proof (rule nth_equalityI)
    show "length (map ?line data') = length (map ?line data)"
      using len by simp
  next
    fix i assume "i < length (map ?line data')"
    then have i: "i < length data'" "i < length data"
      using len by simp_all
    from eq have "map (\<lambda>r. map (member rt r) columns) data' ! i
        = map (\<lambda>r. map (member rt r) columns) data ! i"
      by simp
    with i have "map (member rt (data' ! i)) columns = map (member rt (data ! i)) columns"
      by simp
    then have "\<forall>c \<in> set columns. member rt (data' ! i) c = member rt (data ! i) c"
      by simp
    then have "map (csvField rt (data' ! i)) columns = map (csvField rt (data ! i)) columns"
      by (intro map_cong refl csvField_cong) blast
    then have "?line (data' ! i) = ?line (data ! i)"
      by (simp only:)
    with i show "map ?line data' ! i = map ?line data ! i"
      by (simp only: nth_map)
  qed
  then show ?thesis
    by (simp add: arrayToCsv_def)
qed

lemma list_of_nths: "length xs = n \<Longrightarrow> xs = map (nth xs) [0 ..< n]"
  by (metis map_nth)

text \<open>
  C7, as stated, fails: a record has no property \<open>constructor\<close>, and its field for the
  column of that name is not empty, since \<^verbatim>\<open>row[col]\<close> finds the member that the record
  inherits.
\<close>

definition plainRecord :: jsobj where
  "plainRecord = [(''a'', JStr ''x'')]"

theorem arrayToCsv_inherited_member:
  "map_of plainRecord ''constructor'' = None \<and>
   arrayToCsv utcRuntime [plainRecord] [''a'', ''constructor'']
     = ''a,constructor'' @ [CHR 0x0A] @ ''x,function Object() { [native code] }''"
  by (simp add: arrayToCsv_def csvField_def member_def plainRecord_def utcRuntime_def
      objectPrototype_def nativeCode_def newline_def dquote_def)

text \<open>
  C7, amended: the text is the header line, the column names joined by commas and ended
  by a line feed, then the lines of the records joined by line feeds, one line for each
  record; a line is the fields of the record for the columns, in the order of the
  columns, joined by commas. The value of a field is what \<^verbatim>\<open>row[col]\<close> gives: the
  property of the record, else the member of that name inherited from
  \<^verbatim>\<open>Object.prototype\<close>, else \<^verbatim>\<open>undefined\<close>. The field of \<^verbatim>\<open>null\<close> or \<^verbatim>\<open>undefined\<close> is
  empty; the field of another value is its string form: as it is when it has neither a
  comma nor a double quote, and otherwise between double quotes, with two double quotes
  for each double quote of the string form and every other character as it is. Two
  collections that agree on the listed columns give the same text, so no other property
  of a record is written.
\<close>

theorem arrayToCsv_format:
  "\<exists>lines.
     arrayToCsv rt data columns = join '','' columns @ [CHR 0x0A] @ join [CHR 0x0A] lines \<and>
     length lines = length data \<and>
     (\<forall>i < length data. \<exists>fields.
        lines ! i = join '','' fields \<and> length fields = length columns \<and>
        (\<forall>j < length columns.
           fields ! j =
             (let v = member rt (data ! i) (columns ! j); s = toStr rt v in
              if v = JNull \<or> v = JUndef then []
              else if CHR '','' \<in> set s \<or> CHR 0x22 \<in> set s
                then [CHR 0x22]
                     @ concat (map (\<lambda>c. if c = CHR 0x22 then [CHR 0x22, CHR 0x22] else [c]) s)
                     @ [CHR 0x22]
              else s))) \<and>
     (\<forall>data'. map (\<lambda>r. map (member rt r) columns) data' = map (\<lambda>r. map (member rt r) columns) data
        \<longrightarrow> arrayToCsv rt data' columns = arrayToCsv rt data columns)"
proof -
  let ?line = "\<lambda>row. join '','' (map (csvField rt row) columns)"
  let ?field = "\<lambda>i j.
     (let v = member rt (data ! i) (columns ! j); s = toStr rt v in
      if v = JNull \<or> v = JUndef then []
      else if CHR '','' \<in> set s \<or> CHR 0x22 \<in> set s
        then [CHR 0x22]
             @ concat (map (\<lambda>c. if c = CHR 0x22 then [CHR 0x22, CHR 0x22] else [c]) s)
             @ [CHR 0x22]
      else s)"
  have out: "arrayToCsv rt data columns
      = join '','' columns @ [CHR 0x0A] @ join [CHR 0x0A] (map ?line data)"
    by (simp add: arrayToCsv_def newline_def)
  have len: "length (map ?line data) = length data"
    by simp
  have fields: "\<exists>fields. map ?line data ! i = join '','' fields \<and> length fields = length columns \<and>
        (\<forall>j < length columns. fields ! j = ?field i j)" if "i < length data" for i
    using that by (intro exI [of _ "map (csvField rt (data ! i)) columns"]) (simp add: csvField_cases)
  have same: "arrayToCsv rt data' columns = arrayToCsv rt data columns"
    if "map (\<lambda>r. map (member rt r) columns) data' = map (\<lambda>r. map (member rt r) columns) data"
    for data'
    using that by (rule arrayToCsv_cong)
  have "arrayToCsv rt data columns
      = join '','' columns @ [CHR 0x0A] @ join [CHR 0x0A] (map ?line data) \<and>
     length (map ?line data) = length data \<and>
     (\<forall>i < length data. \<exists>fields.
        map ?line data ! i = join '','' fields \<and> length fields = length columns \<and>
        (\<forall>j < length columns. fields ! j = ?field i j)) \<and>
     (\<forall>data'. map (\<lambda>r. map (member rt r) columns) data' = map (\<lambda>r. map (member rt r) columns) data
        \<longrightarrow> arrayToCsv rt data' columns = arrayToCsv rt data columns)"
  proof (intro conjI)
    show "arrayToCsv rt data columns
        = join '','' columns @ [CHR 0x0A] @ join [CHR 0x0A] (map ?line data)"
      by (fact out)
    show "length (map ?line data) = length data"
      by (fact len)
    show "\<forall>i < length data. \<exists>fields.
        map ?line data ! i = join '','' fields \<and> length fields = length columns \<and>
        (\<forall>j < length columns. fields ! j = ?field i j)"
      by (intro allI impI) (rule fields)
    show "\<forall>data'. map (\<lambda>r. map (member rt r) columns) data' = map (\<lambda>r. map (member rt r) columns) data
        \<longrightarrow> arrayToCsv rt data' columns = arrayToCsv rt data columns"
      by (intro allI impI) (rule same)
  qed
  then show ?thesis
    by (rule exI [of _ "map ?line data"])
qed

text \<open>
  Two records and four columns: a string with a comma, \<^verbatim>\<open>null\<close>, a name that the
  first record inherits and the second has itself, a string with double quotes, a
  number, a column \<open>d\<close> that no record has, and a property \<open>c\<close> that is not listed.
\<close>

definition csvExample :: "jsobj list" where
  "csvExample =
     [[(''a'', JStr ''x,y''), (''b'', JNull), (''c'', JStr ''no'')],
      [(''a'', JStr (''say '' @ [CHR 0x22] @ ''hi'' @ [CHR 0x22])), (''b'', JNum (Fin 125 (- 1))),
       (''constructor'', JStr ''own'')]]"

definition csvColumns :: "string list" where
  "csvColumns = [''a'', ''b'', ''constructor'', ''d'']"

lemma csvExample_members:
  "member utcRuntime (csvExample ! 0) (csvColumns ! 0) = JStr ''x,y''"
  "member utcRuntime (csvExample ! 0) (csvColumns ! 1) = JNull"
  "member utcRuntime (csvExample ! 0) (csvColumns ! 2) = JStr ''function Object() { [native code] }''"
  "member utcRuntime (csvExample ! Suc 0) (csvColumns ! 0) = JStr (''say '' @ [CHR 0x22] @ ''hi'' @ [CHR 0x22])"
  "member utcRuntime (csvExample ! Suc 0) (csvColumns ! 1) = JNum (Fin 125 (- 1))"
  "member utcRuntime (csvExample ! Suc 0) (csvColumns ! 2) = JStr ''own''"
  "member utcRuntime (csvExample ! 0) (csvColumns ! 3) = JUndef"
  "member utcRuntime (csvExample ! Suc 0) (csvColumns ! 3) = JUndef"
  by (simp_all add: member_def csvExample_def csvColumns_def utcRuntime_def objectPrototype_def
      nativeCode_def)

lemma posToString_12_5: "posToString 125 (- 1) = ''12.5''"
  by code_simp

theorem arrayToCsv_format_witness:
  "arrayToCsv utcRuntime csvExample csvColumns =
     ''a,b,constructor,d'' @ [CHR 0x0A]
     @ [CHR 0x22] @ ''x,y'' @ [CHR 0x22] @ '',,function Object() { [native code] },'' @ [CHR 0x0A]
     @ [CHR 0x22] @ ''say '' @ [CHR 0x22, CHR 0x22] @ ''hi'' @ [CHR 0x22, CHR 0x22] @ [CHR 0x22]
     @ '',12.5,own,''"
proof -
  let ?field = "\<lambda>i j.
     (let v = member utcRuntime (csvExample ! i) (csvColumns ! j); s = toStr utcRuntime v in
      if v = JNull \<or> v = JUndef then []
      else if CHR '','' \<in> set s \<or> CHR 0x22 \<in> set s
        then [CHR 0x22]
             @ concat (map (\<lambda>c. if c = CHR 0x22 then [CHR 0x22, CHR 0x22] else [c]) s)
             @ [CHR 0x22]
      else s)"
  from arrayToCsv_format [of utcRuntime csvExample csvColumns]
  obtain lines where out: "arrayToCsv utcRuntime csvExample csvColumns =
        join '','' csvColumns @ [CHR 0x0A] @ join [CHR 0x0A] lines"
    and len: "length lines = length csvExample"
    and fields: "\<forall>i < length csvExample. \<exists>fields.
        lines ! i = join '','' fields \<and> length fields = length csvColumns \<and>
        (\<forall>j < length csvColumns. fields ! j = ?field i j)"
    by blast
  have n: "length csvExample = 2" "length csvColumns = 4"
    by (simp_all add: csvExample_def csvColumns_def)
  have z: "0 < length csvExample" "Suc 0 < length csvExample"
    by (simp_all add: n)
  from fields z(1) obtain fs where fs: "lines ! 0 = join '','' fs" "length fs = length csvColumns"
    and f: "\<forall>j < length csvColumns. fs ! j = ?field 0 j"
    by blast
  from fields z(2) obtain gs where gs: "lines ! Suc 0 = join '','' gs" "length gs = length csvColumns"
    and g: "\<forall>j < length csvColumns. gs ! j = ?field (Suc 0) j"
    by blast
  have four: "[0 ..< 4] = [0, Suc 0, 2, 3]"
    by (simp add: upt_rec)
  have "fs = map (nth fs) [0 ..< 4]"
    using fs(2) n(2) by (intro list_of_nths) simp
  also have "\<dots> = [?field 0 0, ?field 0 (Suc 0), ?field 0 2, ?field 0 3]"
    using f n(2) by (simp add: four)
  also have "\<dots> = [[CHR 0x22] @ ''x,y'' @ [CHR 0x22], [], ''function Object() { [native code] }'', []]"
    using csvExample_members(1-3, 7) by (simp add: csvColumns_def)
  finally have l0: "lines ! 0
      = [CHR 0x22] @ ''x,y'' @ [CHR 0x22] @ '',,function Object() { [native code] },''"
    using fs(1) by simp
  have "gs = map (nth gs) [0 ..< 4]"
    using gs(2) n(2) by (intro list_of_nths) simp
  also have "\<dots> = [?field (Suc 0) 0, ?field (Suc 0) (Suc 0), ?field (Suc 0) 2, ?field (Suc 0) 3]"
    using g n(2) by (simp add: four)
  also have "\<dots> = [[CHR 0x22] @ ''say '' @ [CHR 0x22, CHR 0x22] @ ''hi'' @ [CHR 0x22, CHR 0x22]
                      @ [CHR 0x22], ''12.5'', ''own'', []]"
    using csvExample_members(4-6, 8)
    by (simp add: csvColumns_def posToString_12_5)
  finally have l1: "lines ! Suc 0
      = [CHR 0x22] @ ''say '' @ [CHR 0x22, CHR 0x22] @ ''hi'' @ [CHR 0x22, CHR 0x22] @ [CHR 0x22]
        @ '',12.5,own,''"
    using gs(1) by simp
  have "lines = map (nth lines) [0 ..< 2]"
    using len n(1) by (intro list_of_nths) simp
  then have "lines = [lines ! 0, lines ! Suc 0]"
    by (simp add: upt_rec)
  with l0 l1 out show ?thesis
    by (simp add: csvColumns_def)
qed

text \<open>
  C8: a field with a line break in it is written without quotes, so two different
  collections of category records have the same text, and no reader can give both
  back. The collections differ in the parent of the first record and in the id of
  the second.
\<close>

definition erpColumns :: "string list" where
  "erpColumns = [''erp_category_uid'', ''name'', ''parent_category_uid'']"

definition categoriesA :: "jsobj list" where
  "categoriesA =
     [[(''erp_category_uid'', JStr ''c1''), (''name'', JStr ''n1''),
       (''parent_category_uid'', JStr (''p1'' @ [newline] @ ''q''))],
      [(''erp_category_uid'', JStr ''c2''), (''name'', JStr ''n2''),
       (''parent_category_uid'', JStr ''p2'')]]"

definition categoriesB :: "jsobj list" where
  "categoriesB =
     [[(''erp_category_uid'', JStr ''c1''), (''name'', JStr ''n1''),
       (''parent_category_uid'', JStr ''p1'')],
      [(''erp_category_uid'', JStr (''q'' @ [newline] @ ''c2'')), (''name'', JStr ''n2''),
       (''parent_category_uid'', JStr ''p2'')]]"

theorem arrayToCsv_line_break_collision:
  "arrayToCsv utcRuntime categoriesA erpColumns =
     ''erp_category_uid,name,parent_category_uid'' @ [newline] @ ''c1,n1,p1'' @ [newline]
     @ ''q'' @ [newline] @ ''c2,n2,p2'' \<and>
   arrayToCsv utcRuntime categoriesB erpColumns = arrayToCsv utcRuntime categoriesA erpColumns \<and>
   getProp (categoriesA ! 0) ''parent_category_uid'' \<noteq> getProp (categoriesB ! 0) ''parent_category_uid''"
  by (simp add: arrayToCsv_def csvField_def member_def categoriesA_def categoriesB_def
      erpColumns_def getProp_def newline_def dquote_def)

section \<open>Properties of the number fields\<close>

lemmas parse_defs =
  parseFloat_def parseInt_def splitSign_def trimStart_def isWhiteSpace_def isDigit_def
  mkNum_def roundsToZero_def roundsToInf_def exponentPart_def readNat_def digitVal_def
  stripZeros_def showNat.simps digitChar_def

lemma parseFloatOrNull_cases:
  "parseFloatOrNull rt v = JNull \<or> (\<exists>n. parseFloatOrNull rt v = JNum n \<and> n \<noteq> NaN \<and> \<not> numIsZero n)"
  by (simp add: parseFloatOrNull_def Let_def numTruthy_def)

lemma parseFloatOrNull_falsy:
  "\<not> truthy v \<Longrightarrow> parseFloatOrNull rt (orDefault v ''0'') = JNull"
  by (simp add: parseFloatOrNull_def orDefault_def numTruthy_def parse_defs)

lemma parse_12_50: "parseFloatOrNull rt (orDefault (JStr ''12,50'') ''0'') = JNum (Fin 125 (- 1))"
  by (simp add: parseFloatOrNull_def orDefault_def numTruthy_def parse_defs)

text \<open>
  C4: a row with a store id and an item id adds one record to the items. Its prices
  are parsed by \<^verbatim>\<open>parseFloat\<close> from the string form of the cell, or from \<open>0\<close> for an
  empty (falsy) cell, with the first comma turned into a point; the price is
  \<^verbatim>\<open>null\<close> when the parse fails or gives zero, and never the number zero. The
  assortment flag is parsed by \<^verbatim>\<open>parseInt\<close> and is the number 0 when the parse fails,
  never \<^verbatim>\<open>null\<close>. The cell \<open>12,50\<close> gives the price 12.5 and an empty cell gives
  \<^verbatim>\<open>null\<close>.
\<close>

theorem store_items_price_fields:
  assumes "truthy (getProp rowObject ''Store UID*'')" and "truthy (getProp rowObject ''Product UID*'')"
  shows "\<exists>r. fst (storeItemsStep rt rowObject (itemsData, suppliersMap)) = itemsData @ [r] \<and>
    (let cell = getProp rowObject ''Purchase price'';
         n = parseFloat (replaceFirst CHR '','' CHR ''.'' (if truthy cell then toStr rt cell else ''0''))
     in getProp r ''purchase_price'' = (if n = NaN \<or> numIsZero n then JNull else JNum n)) \<and>
    (let cell = getProp rowObject ''Sale price'';
         n = parseFloat (replaceFirst CHR '','' CHR ''.'' (if truthy cell then toStr rt cell else ''0''))
     in getProp r ''retail_price'' = (if n = NaN \<or> numIsZero n then JNull else JNum n)) \<and>
    (let n = parseInt (toStr rt (getProp rowObject ''In assortment?''))
     in getProp r ''is_active_planogram'' = (if n = NaN \<or> numIsZero n then JNum (Fin 0 0) else JNum n)) \<and>
    (\<forall>n. getProp r ''purchase_price'' = JNum n \<or> getProp r ''retail_price'' = JNum n
       \<longrightarrow> n \<noteq> NaN \<and> \<not> numIsZero n) \<and>
    getProp r ''is_active_planogram'' \<noteq> JNull \<and>
    (getProp rowObject ''Purchase price'' = JStr ''12,50''
       \<longrightarrow> getProp r ''purchase_price'' = JNum (Fin 125 (- 1)) \<and> numVal 125 (- 1) = 25 / 2) \<and>
    (\<not> truthy (getProp rowObject ''Purchase price'') \<longrightarrow> getProp r ''purchase_price'' = JNull)"
proof -
  let ?r = "itemRecord rt rowObject"
  have step: "fst (storeItemsStep rt rowObject (itemsData, suppliersMap)) = itemsData @ [?r]"
    using assms by (simp add: storeItemsStep_def Let_def)
  have pp: "getProp ?r ''purchase_price'' = parseFloatOrNull rt (orDefault (getProp rowObject ''Purchase price'') ''0'')"
    and rp: "getProp ?r ''retail_price'' = parseFloatOrNull rt (orDefault (getProp rowObject ''Sale price'') ''0'')"
    and ap: "getProp ?r ''is_active_planogram'' = parseIntOr0 rt (getProp rowObject ''In assortment?'')"
    by (simp_all add: itemRecord_def getProp_def)
  have unfoldF: "parseFloatOrNull rt (orDefault cell ''0'') =
      (let n = parseFloat (replaceFirst CHR '','' CHR ''.'' (if truthy cell then toStr rt cell else ''0''))
       in if n = NaN \<or> numIsZero n then JNull else JNum n)" for cell
    by (simp add: parseFloatOrNull_def orDefault_def Let_def numTruthy_def)
  have unfoldI: "parseIntOr0 rt cell =
      (let n = parseInt (toStr rt cell) in if n = NaN \<or> numIsZero n then JNum (Fin 0 0) else JNum n)" for cell
    by (auto simp: parseIntOr0_def Let_def numTruthy_def)
  have nz: "\<forall>n. getProp ?r ''purchase_price'' = JNum n \<or> getProp ?r ''retail_price'' = JNum n
       \<longrightarrow> n \<noteq> NaN \<and> \<not> numIsZero n"
    using parseFloatOrNull_cases [of rt "orDefault (getProp rowObject ''Purchase price'') ''0''"]
      parseFloatOrNull_cases [of rt "orDefault (getProp rowObject ''Sale price'') ''0''"]
    unfolding pp rp by auto
  have flag: "getProp ?r ''is_active_planogram'' \<noteq> JNull"
    unfolding ap by (simp add: parseIntOr0_def Let_def)
  have ex: "getProp rowObject ''Purchase price'' = JStr ''12,50''
       \<longrightarrow> getProp ?r ''purchase_price'' = JNum (Fin 125 (- 1)) \<and> numVal 125 (- 1) = 25 / 2"
    unfolding pp using parse_12_50 [of rt] by (simp add: numVal_def)
  have empty: "\<not> truthy (getProp rowObject ''Purchase price'') \<longrightarrow> getProp ?r ''purchase_price'' = JNull"
    unfolding pp by (simp add: parseFloatOrNull_falsy)
  show ?thesis
    apply (rule exI [of _ ?r])
    apply (intro conjI)
          apply (fact step)
         apply (simp only: pp unfoldF Let_def)
        apply (simp only: rp unfoldF Let_def)
       apply (simp only: ap unfoldI Let_def)
      apply (fact nz)
     apply (fact flag)
    apply (fact ex)
    apply (fact empty)
    done
qed

definition storeItemsExample :: jsobj where
  "storeItemsExample =
     [(''Store UID*'', JStr ''S1''), (''Product UID*'', JStr ''P1''),
      (''In assortment?'', JStr ''yes''), (''Purchase price'', JStr ''12,50''),
      (''Sale price'', JNull)]"

theorem store_items_price_fields_witness:
  "truthy (getProp storeItemsExample ''Store UID*'') \<and>
   truthy (getProp storeItemsExample ''Product UID*'') \<and>
   (\<exists>r. fst (storeItemsStep utcRuntime storeItemsExample ([], [])) = [r] \<and>
      getProp r ''purchase_price'' = JNum (Fin 125 (- 1)) \<and>
      getProp r ''retail_price'' = JNull \<and>
      getProp r ''is_active_planogram'' = JNum (Fin 0 0))"
proof -
  have ids: "truthy (getProp storeItemsExample ''Store UID*'')"
    "truthy (getProp storeItemsExample ''Product UID*'')"
    by (simp_all add: storeItemsExample_def getProp_def)
  have cells: "getProp storeItemsExample ''Purchase price'' = JStr ''12,50''"
    "getProp storeItemsExample ''Sale price'' = JNull"
    "getProp storeItemsExample ''In assortment?'' = JStr ''yes''"
    by (simp_all add: storeItemsExample_def getProp_def)
  from store_items_price_fields [OF ids, of utcRuntime "[]" "[]"]
  obtain r where r: "fst (storeItemsStep utcRuntime storeItemsExample ([], [])) = [] @ [r]"
    and rp: "(let cell = getProp storeItemsExample ''Sale price'';
         n = parseFloat (replaceFirst CHR '','' CHR ''.'' (if truthy cell then toStr utcRuntime cell else ''0''))
     in getProp r ''retail_price'' = (if n = NaN \<or> numIsZero n then JNull else JNum n))"
    and ap: "(let n = parseInt (toStr utcRuntime (getProp storeItemsExample ''In assortment?''))
     in getProp r ''is_active_planogram'' = (if n = NaN \<or> numIsZero n then JNum (Fin 0 0) else JNum n))"
    and pp: "getProp storeItemsExample ''Purchase price'' = JStr ''12,50''
       \<longrightarrow> getProp r ''purchase_price'' = JNum (Fin 125 (- 1)) \<and> numVal 125 (- 1) = 25 / 2"
    by blast
  from rp have "getProp r ''retail_price'' = JNull"
    by (simp add: cells parse_defs)
  moreover from ap have "getProp r ''is_active_planogram'' = JNum (Fin 0 0)"
    by (simp add: cells parse_defs)
  moreover from pp cells have "getProp r ''purchase_price'' = JNum (Fin 125 (- 1))"
    by simp
  ultimately show ?thesis
    using ids r by auto
qed

text \<open>
  C10: each measure of a facts record is parsed like a price: the field is \<^verbatim>\<open>null\<close>
  both when the cell does not parse and when it parses to zero, and the number
  otherwise. So no record that \<^verbatim>\<open>processFactsFile\<close> keeps has the number zero (or
  \<open>NaN\<close>) as a measure.
\<close>

theorem facts_measure_zero_is_null:
  assumes "(col, cell) \<in> {(''stock'', ''Stock''), (''sold_qty'', ''Out sale''),
                           (''revenue'', ''Revenue''), (''cogs'', ''COGS'')}"
  shows "(let v = getProp rowObject cell;
              n = parseFloat (replaceFirst CHR '','' CHR ''.'' (if truthy v then toStr rt v else ''0''))
          in getProp (factRecord rt rowObject) col = (if n = NaN \<or> numIsZero n then JNull else JNum n)) \<and>
         (\<forall>r \<in> set (factsData rt headers dataRows).
            getProp r col = JNull \<or> (\<exists>n. getProp r col = JNum n \<and> n \<noteq> NaN \<and> \<not> numIsZero n))"
proof -
  have field: "getProp (factRecord rt ro) col = parseFloatOrNull rt (orDefault (getProp ro cell) ''0'')" for ro
    using assms by (auto simp: factRecord_def getProp_def)
  have first: "(let v = getProp rowObject cell;
              n = parseFloat (replaceFirst CHR '','' CHR ''.'' (if truthy v then toStr rt v else ''0''))
          in getProp (factRecord rt rowObject) col = (if n = NaN \<or> numIsZero n then JNull else JNum n))"
    unfolding field by (simp add: parseFloatOrNull_def orDefault_def Let_def numTruthy_def)
  have second: "getProp r col = JNull \<or> (\<exists>n. getProp r col = JNum n \<and> n \<noteq> NaN \<and> \<not> numIsZero n)"
    if "r \<in> set (factsData rt headers dataRows)" for r
  proof -
    from that obtain row where "r = factRecord rt (toRowObject headers row)"
      by (auto simp: factsData_def)
    then show ?thesis
      using parseFloatOrNull_cases [of rt "orDefault (getProp (toRowObject headers row) cell) ''0''"]
      by (simp only: field)
  qed
  from first second show ?thesis
    by blast
qed

definition factsHeaders :: "string list" where
  "factsHeaders = [''Product UID*'', ''Store UID*'', ''Date*'', ''Stock'', ''Revenue'']"

definition factsRows :: "jsval list list" where
  "factsRows =
     [[JStr ''P1'', JStr ''S1'', JNum (Fin 45000 0), JStr ''0'', JStr ''12,50''],
      [JStr ''P2'', JStr ''S1'', JNull, JStr ''7'', JStr ''1'']]"

lemma factsData_example:
  "factsData utcRuntime factsHeaders factsRows =
     [[(''item_uid'', JStr ''P1''), (''store_uid'', JStr ''S1''), (''date'', JStr ''2023-03-15''),
       (''stock'', JNull), (''sold_qty'', JNull), (''revenue'', JNum (Fin 125 (- 1))), (''cogs'', JNull)]]"
  by code_simp

theorem facts_measure_zero_is_null_witness:
  "(''stock'', ''Stock'') \<in> {(''stock'', ''Stock''), (''sold_qty'', ''Out sale''),
                              (''revenue'', ''Revenue''), (''cogs'', ''COGS'')} \<and>
   getProp (factRecord utcRuntime [(''Stock'', JStr ''0,0'')]) ''stock'' = JNull \<and>
   getProp (factRecord utcRuntime [(''Stock'', JStr ''n/a'')]) ''stock'' = JNull \<and>
   hd (factsData utcRuntime factsHeaders factsRows) \<in> set (factsData utcRuntime factsHeaders factsRows) \<and>
   (getProp (hd (factsData utcRuntime factsHeaders factsRows)) ''stock'' = JNull \<or>
    (\<exists>n. getProp (hd (factsData utcRuntime factsHeaders factsRows)) ''stock'' = JNum n \<and>
         n \<noteq> NaN \<and> \<not> numIsZero n))"
proof -
  have mem: "(''stock'', ''Stock'') \<in> {(''stock'', ''Stock''), (''sold_qty'', ''Out sale''),
                              (''revenue'', ''Revenue''), (''cogs'', ''COGS'')}"
    by simp
  have zero: "getProp (factRecord utcRuntime [(''Stock'', JStr ''0,0'')]) ''stock'' = JNull"
    using facts_measure_zero_is_null [OF mem, of "[(''Stock'', JStr ''0,0'')]" utcRuntime]
    by (simp add: getProp_def parse_defs)
  have bad: "getProp (factRecord utcRuntime [(''Stock'', JStr ''n/a'')]) ''stock'' = JNull"
    using facts_measure_zero_is_null [OF mem, of "[(''Stock'', JStr ''n/a'')]" utcRuntime]
    by (simp add: getProp_def parse_defs)
  have some: "hd (factsData utcRuntime factsHeaders factsRows) \<in> set (factsData utcRuntime factsHeaders factsRows)"
    by (simp add: factsData_example)
  from facts_measure_zero_is_null [OF mem, of _ utcRuntime factsHeaders factsRows] mem zero bad some
  show ?thesis
    by blast
qed

section \<open>Properties of the dates\<close>


lemma MonthOfDay_range: "0 \<le> MonthOfDay leap dy \<and> MonthOfDay leap dy \<le> 11"
  by (simp add: MonthOfDay_def)





























text \<open>
  Beyond the range of \<^verbatim>\<open>Date\<close> the second path still gives a date text: the fields of
  the invalid date are \<open>NaN\<close>, and the row is kept.
\<close>

lemma serial_out_of_range: "formattedDate rt (JNum (Fin 2 8)) = Some ''NaN-NaN-NaN''"
  by (simp add: formattedDate_def jsDate_def numTruthy_def numVal_def excelSerialDateToJSDate_def
      newDateMs_def formatDateToYYYYMMDD_def)

section \<open>Properties of the detection\<close>

lemma startsWith_set: "startsWith s kw \<Longrightarrow> set kw \<subseteq> set s"
  by (induction s kw rule: startsWith.induct) auto

lemma includesStr_set: "includesStr s kw \<Longrightarrow> set kw \<subseteq> set s"
proof (induction s)
  case Nil
  then show ?case by simp
next
  case (Cons a s)
  from Cons.prems have "startsWith (a # s) kw \<or> includesStr s kw"
    by simp
  then show ?case
  proof
    assume "startsWith (a # s) kw"
    then show ?thesis by (rule startsWith_set)
  next
    assume "includesStr s kw"
    then have "set kw \<subseteq> set s" by (rule Cons.IH)
    then show ?thesis by auto
  qed
qed

lemma set_join: "set (join sep xs) \<subseteq> set sep \<union> (\<Union>x \<in> set xs. set x)"
  by (induction sep xs rule: join.induct) auto

text \<open>
  The string form of a number or of a date has none of the characters \<open>*\<close>, \<open>Q\<close> and
  \<open>P\<close>, and every type has a keyword with one of them.
\<close>

definition numChars :: "char set" where
  "numChars = set ''0123456789.e+-InfinityNaN''"

definition dateChars :: "char set" where
  "dateChars = set ''0123456789 :+-GMT'' \<union> set ''Invalid Date'' \<union> set (concat dayNames) \<union> set (concat monthNames)"

definition markers :: "char set" where
  "markers = {CHR ''*'', CHR ''Q'', CHR ''P''}"

lemma digitChar_digit: "n < 10 \<Longrightarrow> digitChar n \<in> set ''0123456789''"
proof -
  assume "n < 10"
  then have "n \<in> {0, 1, 2, 3, 4, 5, 6, 7, 8, 9}"
    by auto
  then show ?thesis
    by (auto simp: digitChar_def)
qed

lemma showNat_digits: "set (showNat n) \<subseteq> set ''0123456789''"
proof (induction n rule: showNat.induct)
  case (1 n)
  show ?case
  proof (cases "n < 10")
    case True
    with digitChar_digit [of n] show ?thesis
      by (subst showNat.simps) simp
  next
    case False
    have "n mod 10 < 10"
      by simp
    from digitChar_digit [OF this] 1 [OF False] False show ?thesis
      by (subst showNat.simps) simp
  qed
qed

lemma showInt_chars: "set (showInt i) \<subseteq> insert CHR ''-'' (set ''0123456789'')"
proof -
  have "set (showNat k) \<subseteq> insert CHR ''-'' (set ''0123456789'')" for k
    using showNat_digits [of k] by (rule order_trans) (rule subset_insertI)
  then show ?thesis
    by (simp add: showInt_def)
qed

lemma stripZeros_subset: "set (stripZeros ds) \<subseteq> set ds"
  by (auto simp: stripZeros_def dest: set_dropWhileD)

lemma numDigits_chars:
  assumes "set s \<subseteq> set ''0123456789''"
  shows "set (numDigits s n) \<subseteq> numChars"
proof -
  have digits: "set ''0123456789'' \<subseteq> numChars"
    by (simp add: numChars_def)
  have parts: "set (take k s) \<subseteq> numChars" "set (drop k s) \<subseteq> numChars" "set s \<subseteq> numChars" for k
    using assms digits set_take_subset [of k s] set_drop_subset [of k s] by blast+
  have ex: "set (showNat k) \<subseteq> numChars" for k
    using showNat_digits [of k] digits by blast
  have cs: "CHR ''0'' \<in> numChars" "CHR ''.'' \<in> numChars" "CHR ''e'' \<in> numChars"
    "CHR ''+'' \<in> numChars" "CHR ''-'' \<in> numChars"
    by (simp_all add: numChars_def)
  have rep: "set (replicate k CHR ''0'') \<subseteq> numChars" for k
    using cs(1) by (cases "k = 0") simp_all
  show ?thesis
    by (simp add: numDigits_def Let_def parts ex cs rep)
qed

lemma posToString_chars: "set (posToString m e) \<subseteq> numChars"
  unfolding posToString_def Let_def
  by (rule numDigits_chars) (rule order_trans [OF stripZeros_subset showNat_digits])

lemma numToString_chars: "set (numToString n) \<subseteq> numChars"
proof (cases n)
  case (Fin m e)
  have "CHR ''-'' \<in> numChars" "CHR ''0'' \<in> numChars"
    by (simp_all add: numChars_def)
  then show ?thesis
    by (simp add: Fin posToString_chars)
qed (simp_all add: numChars_def)

lemma markers_not_num: "c \<in> markers \<Longrightarrow> c \<notin> numChars"
proof -
  have "CHR ''*'' \<notin> numChars" "CHR ''Q'' \<notin> numChars" "CHR ''P'' \<notin> numChars"
    by (simp_all add: numChars_def)
  then show "c \<in> markers \<Longrightarrow> c \<notin> numChars"
    by (auto simp: markers_def)
qed

lemma markers_not_date: "c \<in> markers \<Longrightarrow> c \<notin> dateChars"
proof -
  have "CHR ''*'' \<notin> dateChars" "CHR ''Q'' \<notin> dateChars" "CHR ''P'' \<notin> dateChars"
    by (simp_all add: dateChars_def dayNames_def monthNames_def)
  then show "c \<in> markers \<Longrightarrow> c \<notin> dateChars"
    by (auto simp: markers_def)
qed


lemma dateToString_chars: "set (dateToString tz d) \<subseteq> dateChars"
proof (cases d)
  case InvalidDate
  then show ?thesis
    by (simp add: dateToString_def dateChars_def)
next
  case (DateT tv)
  obtain y m dd where c: "civil (tv + tz) = (y, m, dd)"
    by (cases "civil (tv + tz)")
  have digits: "set ''0123456789'' \<subseteq> dateChars"
    by (simp add: dateChars_def)
  have cs: "CHR ''0'' \<in> dateChars" "CHR ''-'' \<in> dateChars" "CHR ''+'' \<in> dateChars"
    "CHR '' '' \<in> dateChars" "CHR '':'' \<in> dateChars" "CHR ''G'' \<in> dateChars"
    "CHR ''M'' \<in> dateChars" "CHR ''T'' \<in> dateChars"
    by (simp_all add: dateChars_def)
  have int: "set (showInt i) \<subseteq> dateChars" for i
    using showInt_chars [of i] digits cs(2) by blast
  have rep: "set (replicate k CHR ''0'') \<subseteq> dateChars" for k
    using cs(1) by (cases "k = 0") simp_all
  have pad: "set (pad2 i) \<subseteq> dateChars" for i
    by (simp add: pad2_def padStart2_def rep int)
  have names: "set (concat dayNames) \<subseteq> dateChars" "set (concat monthNames) \<subseteq> dateChars"
    unfolding dateChars_def by blast+
  have "nat (WeekDay (tv + tz)) < length dayNames"
    by (simp add: WeekDay_def dayNames_def)
  then have "dayNames ! nat (WeekDay (tv + tz)) \<in> set dayNames"
    by (rule nth_mem)
  then have "set (dayNames ! nat (WeekDay (tv + tz))) \<subseteq> set (concat dayNames)"
    by auto
  from this names(1) have day: "set (dayNames ! nat (WeekDay (tv + tz))) \<subseteq> dateChars"
    by (rule order_trans)
  from c have "m = MonthOfDay (InLeapYear y) (Day (tv + tz) - DayFromYear y)"
    by (auto simp: civil_def Let_def)
  with MonthOfDay_range [of "InLeapYear y" "Day (tv + tz) - DayFromYear y"]
  have "nat m < 12"
    by linarith
  moreover have "length monthNames = 12"
    by (simp add: monthNames_def)
  ultimately have "nat m < length monthNames"
    by (simp only:)
  then have "monthNames ! nat m \<in> set monthNames"
    by (rule nth_mem)
  then have "set (monthNames ! nat m) \<subseteq> set (concat monthNames)"
    by auto
  from this names(2) have month: "set (monthNames ! nat m) \<subseteq> dateChars"
    by (rule order_trans)
  have sign: "{x. x = CHR ''-'' \<and> y < 0} \<subseteq> dateChars"
    using cs(2) by auto
  show ?thesis
    by (simp add: DateT dateToString_def Let_def c day month pad int rep cs sign)
qed

lemma marker_in_cell:
  assumes "c \<in> markers" and "c \<in> set (joinCell rt cell)"
  shows "isString cell"
proof (cases cell)
  case (JNum n)
  with assms(2) numToString_chars [of n] have "c \<in> numChars"
    by (auto simp: joinCell_def)
  with markers_not_num [OF assms(1)] show ?thesis
    by simp
next
  case (JDate d)
  with assms(2) dateToString_chars [of "localTZA rt" d] have "c \<in> dateChars"
    by (auto simp: joinCell_def)
  with markers_not_date [OF assms(1)] show ?thesis
    by simp
qed (use assms(2) in \<open>simp_all add: joinCell_def isString_def\<close>)

lemma keyword_marker:
  "t \<noteq> UNKNOWN \<Longrightarrow> \<exists>kw \<in> set (keywordsOf t). \<exists>c \<in> set kw. c \<in> markers \<and> c \<noteq> CHR ''|''"
  by (cases t) (simp_all add: markers_def)

text \<open>
  The rows of the specification: the cells joined by \<open>|\<close> contain every keyword of
  the type. The code asks for a string cell as well, which such a row always has.
\<close>

definition specRowMatches :: "runtime \<Rightarrow> FileType \<Rightarrow> jsval list \<Rightarrow> bool" where
  "specRowMatches rt t row = list_all (\<lambda>kw. includesStr (joinVals rt ''|'' row) kw) (keywordsOf t)"

definition specSheetMatches :: "runtime \<Rightarrow> workbook \<Rightarrow> FileType \<Rightarrow> string \<Rightarrow> bool" where
  "specSheetMatches rt wb t sheetName =
     (case map_of (Sheets wb) sheetName of
        None \<Rightarrow> False
      | Some sh \<Rightarrow> list_ex (specRowMatches rt t) (take 20 (rawRows sh)))"

lemma rowMatches_spec:
  assumes "t \<noteq> UNKNOWN"
  shows "rowMatches rt (keywordsOf t) row = specRowMatches rt t row"
proof -
  have "\<exists>cell \<in> set row. isString cell" if all: "specRowMatches rt t row"
  proof -
    from keyword_marker [OF assms] obtain kw c
      where kw: "kw \<in> set (keywordsOf t)" and c: "c \<in> set kw" "c \<in> markers" "c \<noteq> CHR ''|''"
      by blast
    from all kw have "includesStr (joinVals rt ''|'' row) kw"
      by (simp add: specRowMatches_def list_all_iff)
    from includesStr_set [OF this] c(1) have "c \<in> set (joinVals rt ''|'' row)"
      by blast
    with set_join [of "''|''" "map (joinCell rt) row"] c(3)
    obtain cell where "cell \<in> set row" "c \<in> set (joinCell rt cell)"
      by (auto simp: joinVals_def)
    with marker_in_cell [OF c(2)] show ?thesis
      by blast
  qed
  then show ?thesis
    by (auto simp: rowMatches_def specRowMatches_def list_ex_iff)
qed

lemma sheetMatches_spec:
  "t \<noteq> UNKNOWN \<Longrightarrow> sheetMatches rt (keywordsOf t) sh = list_ex (specRowMatches rt t) (take 20 (rawRows sh))"
  by (simp add: sheetMatches_def list_ex_iff rowMatches_spec)

lemma findSheet_find:
  "t \<noteq> UNKNOWN \<Longrightarrow> findSheet rt wb (keywordsOf t) names = find (specSheetMatches rt wb t) names"
  by (induction names) (simp_all add: specSheetMatches_def sheetMatches_spec split: option.splits)

lemma find_append_case:
  "find P (xs @ ys) = (case find P xs of None \<Rightarrow> find P ys | Some x \<Rightarrow> Some x)"
  by (induction xs) simp_all

lemma find_map_Pair: "find P (map (Pair t) xs) = map_option (Pair t) (find (\<lambda>x. P (t, x)) xs)"
  by (induction xs) simp_all

lemma detectLoop_find:
  "UNKNOWN \<notin> set ts \<Longrightarrow>
   detectLoop rt wb ts =
     (case find (\<lambda>(t, sheetName). specSheetMatches rt wb t sheetName) (List.product ts (SheetNames wb)) of
        None \<Rightarrow> (UNKNOWN, None)
      | Some (t, sheetName) \<Rightarrow> (t, Some sheetName))"
proof (induction ts)
  case Nil
  then show ?case by simp
next
  case (Cons t ts)
  then have t: "t \<noteq> UNKNOWN" and ts: "UNKNOWN \<notin> set ts"
    by auto
  show ?case
    by (simp add: FILE_TYPE_DEFINITIONS_def t findSheet_find find_append_case find_map_Pair
        Cons.IH [OF ts] split: option.splits)
qed


text \<open>
  C1: detection returns the first pair of a type and a sheet name, the types in the
  order \<open>ITEM_MASTER_V2, ITEM_MASTER, STORE_ITEMS, FACTS, STORE, STOCK, PRICE\<close> and
  for each type the sheet names in the order of the workbook, such that one of the
  first 20 rows of the sheet has every keyword of the type in its cells joined by
  \<open>|\<close>; it returns \<open>(UNKNOWN, null)\<close> when there is no such pair. So a workbook with
  a row, among the first 20 of a sheet, that has the keywords of both item master
  formats is of the second format.
\<close>

theorem detectFileType_first_match:
  "detectFileType rt wb =
     (case find (\<lambda>(t, sheetName). specSheetMatches rt wb t sheetName)
             (List.product [ITEM_MASTER_V2, ITEM_MASTER, STORE_ITEMS, FACTS, STORE, STOCK, PRICE]
                (SheetNames wb)) of
        None \<Rightarrow> (UNKNOWN, None)
      | Some (t, sheetName) \<Rightarrow> (t, Some sheetName)) \<and>
   ((\<exists>sheetName \<in> set (SheetNames wb). \<exists>sh.
        map_of (Sheets wb) sheetName = Some sh \<and>
        (\<exists>row \<in> set (take 20 (rawRows sh)).
           specRowMatches rt ITEM_MASTER_V2 row \<and> specRowMatches rt ITEM_MASTER row))
      \<longrightarrow> fst (detectFileType rt wb) = ITEM_MASTER_V2)"
proof
  show "detectFileType rt wb =
     (case find (\<lambda>(t, sheetName). specSheetMatches rt wb t sheetName)
             (List.product [ITEM_MASTER_V2, ITEM_MASTER, STORE_ITEMS, FACTS, STORE, STOCK, PRICE]
                (SheetNames wb)) of
        None \<Rightarrow> (UNKNOWN, None)
      | Some (t, sheetName) \<Rightarrow> (t, Some sheetName))"
    unfolding detectFileType_def typeCheckOrder_def by (rule detectLoop_find) simp
next
  show "(\<exists>sheetName \<in> set (SheetNames wb). \<exists>sh.
        map_of (Sheets wb) sheetName = Some sh \<and>
        (\<exists>row \<in> set (take 20 (rawRows sh)).
           specRowMatches rt ITEM_MASTER_V2 row \<and> specRowMatches rt ITEM_MASTER row))
      \<longrightarrow> fst (detectFileType rt wb) = ITEM_MASTER_V2"
  proof
    assume "\<exists>sheetName \<in> set (SheetNames wb). \<exists>sh.
        map_of (Sheets wb) sheetName = Some sh \<and>
        (\<exists>row \<in> set (take 20 (rawRows sh)).
           specRowMatches rt ITEM_MASTER_V2 row \<and> specRowMatches rt ITEM_MASTER row)"
    then obtain sheetName sh row where "sheetName \<in> set (SheetNames wb)"
      and sh: "map_of (Sheets wb) sheetName = Some sh"
      and row: "row \<in> set (take 20 (rawRows sh))" "specRowMatches rt ITEM_MASTER_V2 row"
      by blast
    from sh row have "specSheetMatches rt wb ITEM_MASTER_V2 sheetName"
      by (auto simp: specSheetMatches_def list_ex_iff)
    with \<open>sheetName \<in> set (SheetNames wb)\<close>
    have "sheetName \<in> set (SheetNames wb)" and "specSheetMatches rt wb ITEM_MASTER_V2 sheetName"
      by simp_all
    then have "find (specSheetMatches rt wb ITEM_MASTER_V2) (SheetNames wb) \<noteq> None"
      by (auto simp: find_None_iff)
    then obtain sn where "find (specSheetMatches rt wb ITEM_MASTER_V2) (SheetNames wb) = Some sn"
      by blast
    moreover have "findSheet rt wb (keywordsOf ITEM_MASTER_V2) (SheetNames wb)
        = find (specSheetMatches rt wb ITEM_MASTER_V2) (SheetNames wb)"
      by (rule findSheet_find) simp
    ultimately have "findSheet rt wb (keywordsOf ITEM_MASTER_V2) (SheetNames wb) = Some sn"
      by (simp only:)
    then show "fst (detectFileType rt wb) = ITEM_MASTER_V2"
      by (simp add: detectFileType_def typeCheckOrder_def FILE_TYPE_DEFINITIONS_def)
  qed
qed

definition bothRow :: "jsval list" where
  "bothRow = [JStr ''UID*'', JStr ''Product name*'', JStr ''Barcode'', JNum (Fin 7 0),
              JStr ''Manufacturer UID'', JNull, JStr ''Manufacturer'']"

definition bothWorkbook :: workbook where
  "bothWorkbook =
     \<lparr>SheetNames = [''Notes'', ''Items''],
      Sheets = [(''Notes'', \<lparr>rawRows = [[JStr ''UID*'', JNum (Fin 5 0)]], fmtRows = []\<rparr>),
                (''Items'', \<lparr>rawRows = [[], bothRow], fmtRows = [[], bothRow]\<rparr>)]\<rparr>"

lemma bothRow_matches:
  "specRowMatches utcRuntime ITEM_MASTER_V2 bothRow \<and> specRowMatches utcRuntime ITEM_MASTER bothRow"
  by code_simp

theorem detectFileType_first_match_witness:
  "(\<exists>sheetName \<in> set (SheetNames bothWorkbook). \<exists>sh.
      map_of (Sheets bothWorkbook) sheetName = Some sh \<and>
      (\<exists>row \<in> set (take 20 (rawRows sh)).
         specRowMatches utcRuntime ITEM_MASTER_V2 row \<and> specRowMatches utcRuntime ITEM_MASTER row)) \<and>
   fst (detectFileType utcRuntime bothWorkbook) = ITEM_MASTER_V2"
proof -
  have "''Items'' \<in> set (SheetNames bothWorkbook)"
    and "map_of (Sheets bothWorkbook) ''Items'' = Some \<lparr>rawRows = [[], bothRow], fmtRows = [[], bothRow]\<rparr>"
    and "bothRow \<in> set (take 20 (rawRows \<lparr>rawRows = [[], bothRow], fmtRows = [[], bothRow]\<rparr>))"
    by (simp_all add: bothWorkbook_def)
  with bothRow_matches
  have ex: "\<exists>sheetName \<in> set (SheetNames bothWorkbook). \<exists>sh.
      map_of (Sheets bothWorkbook) sheetName = Some sh \<and>
      (\<exists>row \<in> set (take 20 (rawRows sh)).
         specRowMatches utcRuntime ITEM_MASTER_V2 row \<and> specRowMatches utcRuntime ITEM_MASTER row)"
    by blast
  with detectFileType_first_match [of utcRuntime bothWorkbook] show ?thesis
    by blast
qed

lemma detect_bothWorkbook: "detectFileType utcRuntime bothWorkbook = (ITEM_MASTER_V2, Some ''Items'')"
  by code_simp

section \<open>Properties of the item master, second format\<close>

subsection \<open>Maps\<close>

lemma mapHas_iff: "mapHas m k \<longleftrightarrow> k \<in> fst ` set m"
  by (simp add: mapHas_def map_of_eq_None_iff)

lemma map_of_replace:
  "map_of (map (\<lambda>(k', v'). if k' = k then (k', v) else (k', v')) m) x
     = (if x = k \<and> k \<in> fst ` set m then Some v else map_of m x)"
proof (induction m)
  case Nil
  then show ?case by simp
next
  case (Cons e m)
  obtain a b where e: "e = (a, b)"
    by (cases e)
  show ?case
    using Cons.IH by (cases "a = k"; cases "x = k"; cases "k \<in> fst ` set m"; simp add: e)
qed

lemma map_of_mapSet: "map_of (mapSet m k v) x = (if x = k then Some v else map_of m x)"
proof (cases "mapHas m k")
  case True
  then show ?thesis
    by (simp add: mapSet_def map_of_replace mapHas_iff)
next
  case False
  then have "map_of m k = None"
    by (simp add: mapHas_def)
  with False show ?thesis
    by (simp add: mapSet_def map_add_def split: option.splits)
qed

lemma keys_replace: "map fst (map (\<lambda>(k', v'). if k' = k then (k', v) else (k', v')) m) = map fst m"
  by (induction m) auto

lemma distinct_mapSet:
  assumes "distinct (map fst m)"
  shows "distinct (map fst (mapSet m k v))"
proof (cases "mapHas m k")
  case True
  then have "map fst (mapSet m k v) = map fst m"
    by (simp only: mapSet_def if_True keys_replace)
  with assms show ?thesis
    by (simp only:)
next
  case False
  then have "mapSet m k v = m @ [(k, v)]"
    by (simp add: mapSet_def)
  with False assms show ?thesis
    by (simp add: mapHas_iff)
qed

lemma one_entry:
  "distinct (map fst m) \<Longrightarrow> map_of m k = Some v \<Longrightarrow> length (filter (\<lambda>e. fst e = k) m) = 1"
proof (induction m)
  case Nil
  then show ?case by simp
next
  case (Cons e m)
  show ?case
  proof (cases "fst e = k")
    case True
    with Cons.prems(1) have "k \<notin> fst ` set m"
      by simp
    then have "\<forall>e' \<in> set m. fst e' \<noteq> k"
      by force
    then have "filter (\<lambda>e. fst e = k) m = []"
      by (simp add: filter_empty_conv)
    with True show ?thesis
      by simp
  next
    case False
    with Cons show ?thesis
      by (cases e) auto
  qed
qed

subsection \<open>The loop\<close>

lemma itemMasterV2Rows_snoc:
  "itemMasterV2Rows rt (rows @ [row]) = itemMasterV2Step rt row (itemMasterV2Rows rt rows)"
  by (simp add: itemMasterV2Rows_def)

lemma itemMasterV2Rows_fields:
  "masteritemsDataV2 (itemMasterV2Rows rt rows) = map (masterItemV2 rt) rows \<and>
   brandsMap (itemMasterV2Rows rt rows) = fold (brandStep rt) rows [] \<and>
   manufacturersMap (itemMasterV2Rows rt rows) = fold (manufacturerStep rt) rows [] \<and>
   erpCategoriesMap (itemMasterV2Rows rt rows) = fold (categoriesStep rt) rows []"
proof (induction rows rule: rev_induct)
  case Nil
  then show ?case
    by (simp add: itemMasterV2Rows_def emptyItemMasterV2State_def)
next
  case (snoc row rows)
  then show ?case
    by (simp add: itemMasterV2Rows_snoc itemMasterV2Step_def)
qed

subsection \<open>Brands\<close>

text \<open>The key and the entry that a row gives to \<^verbatim>\<open>brandsMap\<close>, lines 517 to 524 and 562 to 571.\<close>

definition brandKey :: "runtime \<Rightarrow> jsobj \<Rightarrow> string option" where
  "brandKey rt row =
     (let effective = effectiveUid rt (getProp row ''Brand UID'') (getProp row ''Brand'')
      in if effective = JNull then None else Some (toStr rt effective))"

definition brandEntry :: "runtime \<Rightarrow> jsobj \<Rightarrow> jsobj" where
  "brandEntry rt row =
     (let effective = effectiveUid rt (getProp row ''Brand UID'') (getProp row ''Brand'')
      in [(''brand_uid'', effective), (''name'', orElse (getProp row ''Brand'') effective),
          (''is_deleted'', JNum (Fin 0 0))])"

lemma brandStep_cases:
  "brandStep rt row m =
     (case brandKey rt row of
        None \<Rightarrow> m
      | Some k \<Rightarrow> if mapHas m k then m else mapSet m k (brandEntry rt row))"
  by (simp add: brandStep_def namedStep_def brandKey_def brandEntry_def Let_def)

lemma brands_first_wins:
  "distinct (map fst (fold (brandStep rt) rows [])) \<and>
   (\<forall>k. map_of (fold (brandStep rt) rows []) k
          = map_option (brandEntry rt) (find (\<lambda>row. brandKey rt row = Some k) rows))"
proof (induction rows rule: rev_induct)
  case Nil
  then show ?case by simp
next
  case (snoc row rows)
  let ?m = "fold (brandStep rt) rows []"
  from snoc have d: "distinct (map fst ?m)"
    and f: "map_of ?m k = map_option (brandEntry rt) (find (\<lambda>row. brandKey rt row = Some k) rows)" for k
    by blast+
  have has: "mapHas ?m k \<longleftrightarrow> find (\<lambda>row. brandKey rt row = Some k) rows \<noteq> None" for k
    by (simp add: mapHas_def f)
  have c1: "distinct (map fst (fold (brandStep rt) (rows @ [row]) []))"
    using d by (simp add: brandStep_cases distinct_mapSet split: option.splits)
  have c2: "map_of (fold (brandStep rt) (rows @ [row]) []) k
          = map_option (brandEntry rt) (find (\<lambda>row. brandKey rt row = Some k) (rows @ [row]))" for k
  proof (cases "brandKey rt row")
    case None
    then show ?thesis
      by (simp add: brandStep_cases f find_append_case split: option.splits)
  next
    case (Some k')
    show ?thesis
    proof (cases "mapHas ?m k'")
      case True
      then have "fold (brandStep rt) (rows @ [row]) [] = ?m"
        by (simp add: brandStep_cases Some)
      moreover from True have "find (\<lambda>row. brandKey rt row = Some k) rows = None \<Longrightarrow> k \<noteq> k'"
        by (auto simp: has)
      ultimately show ?thesis
        by (cases "find (\<lambda>row. brandKey rt row = Some k) rows")
          (simp_all add: f find_append_case Some)
    next
      case False
      then have "fold (brandStep rt) (rows @ [row]) [] = mapSet ?m k' (brandEntry rt row)"
        by (simp add: brandStep_cases Some)
      moreover from False have "find (\<lambda>row. brandKey rt row = Some k') rows = None"
        by (simp add: has)
      ultimately show ?thesis
        by (cases "k = k'") (simp_all add: map_of_mapSet f find_append_case Some split: option.splits)
    qed
  qed
  from c1 c2 show ?case
    by blast
qed

lemma brand_fallback:
  assumes "blank rt (getProp row ''Brand UID'')" and "\<not> blank rt (getProp row ''Brand'')"
  shows "getProp (masterItemV2 rt row) ''brand_uid'' = getProp row ''Brand''"
    and "brandKey rt row = Some (toStr rt (getProp row ''Brand''))"
proof -
  from assms have e: "effectiveUid rt (getProp row ''Brand UID'') (getProp row ''Brand'') = getProp row ''Brand''"
    by (simp add: effectiveUid_def)
  from assms(2) have "getProp row ''Brand'' \<noteq> JNull"
    by (auto simp: blank_def)
  with e show "brandKey rt row = Some (toStr rt (getProp row ''Brand''))"
    by (simp add: brandKey_def)
  from e show "getProp (masterItemV2 rt row) ''brand_uid'' = getProp row ''Brand''"
    by (simp add: masterItemV2_def Let_def getProp_def)
qed


text \<open>
  C6: every row gives one item record. For a row with a blank brand UID and a brand
  name that is not blank, the \<open>brand_uid\<close> of its record is the brand name, and the
  brands have exactly one entry with the string form of that name as key. The keys of
  the brands are distinct, and the entry of a key is the one of the first row with that
  key.
\<close>

theorem brand_name_fallback:
  "masteritemsDataV2 (itemMasterV2Rows rt rows) = map (masterItemV2 rt) rows \<and>
   distinct (map fst (brandsMap (itemMasterV2Rows rt rows))) \<and>
   (\<forall>k. map_of (brandsMap (itemMasterV2Rows rt rows)) k
          = map_option (brandEntry rt) (find (\<lambda>row. brandKey rt row = Some k) rows)) \<and>
   (\<forall>row \<in> set rows.
      blank rt (getProp row ''Brand UID'') \<and> \<not> blank rt (getProp row ''Brand'') \<longrightarrow>
      getProp (masterItemV2 rt row) ''brand_uid'' = getProp row ''Brand'' \<and>
      length (filter (\<lambda>e. fst e = toStr rt (getProp row ''Brand''))
                (brandsMap (itemMasterV2Rows rt rows))) = 1)"
proof -
  let ?m = "brandsMap (itemMasterV2Rows rt rows)"
  have m: "?m = fold (brandStep rt) rows []"
    and items: "masteritemsDataV2 (itemMasterV2Rows rt rows) = map (masterItemV2 rt) rows"
    using itemMasterV2Rows_fields [of rt rows] by simp_all
  from brands_first_wins [of rt rows] have d: "distinct (map fst ?m)"
    and f: "\<forall>k. map_of ?m k = map_option (brandEntry rt) (find (\<lambda>row. brandKey rt row = Some k) rows)"
    unfolding m by blast+
  have one: "getProp (masterItemV2 rt row) ''brand_uid'' = getProp row ''Brand'' \<and>
      length (filter (\<lambda>e. fst e = toStr rt (getProp row ''Brand'')) ?m) = 1"
    if row: "row \<in> set rows"
      and b: "blank rt (getProp row ''Brand UID'') \<and> \<not> blank rt (getProp row ''Brand'')" for row
  proof -
    from b have key: "brandKey rt row = Some (toStr rt (getProp row ''Brand''))"
      and uid: "getProp (masterItemV2 rt row) ''brand_uid'' = getProp row ''Brand''"
      by (simp_all add: brand_fallback)
    from row key have "find (\<lambda>r. brandKey rt r = Some (toStr rt (getProp row ''Brand''))) rows \<noteq> None"
      by (auto simp: find_None_iff)
    with f obtain e where "map_of ?m (toStr rt (getProp row ''Brand'')) = Some e"
      by auto
    from one_entry [OF d this] uid show ?thesis
      by simp
  qed
  from items d f one show ?thesis
    by blast
qed

definition brandExample :: "jsobj list" where
  "brandExample =
     [[(''UID*'', JStr ''I1''), (''Brand UID'', JNull), (''Brand'', JStr ''Acme'')],
      [(''UID*'', JStr ''I2''), (''Brand UID'', JStr ''B9''), (''Brand'', JStr ''Best'')],
      [(''UID*'', JStr ''I3''), (''Brand'', JStr ''Acme'')]]"

lemma brandExample_map:
  "brandsMap (itemMasterV2Rows utcRuntime brandExample) =
     [(''Acme'', [(''brand_uid'', JStr ''Acme''), (''name'', JStr ''Acme''), (''is_deleted'', JNum (Fin 0 0))]),
      (''B9'', [(''brand_uid'', JStr ''B9''), (''name'', JStr ''Best''), (''is_deleted'', JNum (Fin 0 0))])]"
  by code_simp

lemma brandExample_row:
  "brandExample ! 2 \<in> set brandExample"
  "blank utcRuntime (getProp (brandExample ! 2) ''Brand UID'')"
  "\<not> blank utcRuntime (getProp (brandExample ! 2) ''Brand'')"
  "getProp (brandExample ! 2) ''Brand'' = JStr ''Acme''"
  by (simp_all add: brandExample_def getProp_def blank_def trim_def isWhiteSpace_def)

theorem brand_name_fallback_witness:
  "brandExample ! 2 \<in> set brandExample \<and>
   blank utcRuntime (getProp (brandExample ! 2) ''Brand UID'') \<and>
   \<not> blank utcRuntime (getProp (brandExample ! 2) ''Brand'') \<and>
   getProp (masterItemV2 utcRuntime (brandExample ! 2)) ''brand_uid'' = JStr ''Acme'' \<and>
   length (filter (\<lambda>e. fst e = ''Acme'') (brandsMap (itemMasterV2Rows utcRuntime brandExample))) = 1 \<and>
   map_of (brandsMap (itemMasterV2Rows utcRuntime brandExample)) ''Acme''
     = Some (brandEntry utcRuntime (brandExample ! 0))"
proof -
  note t = brand_name_fallback [of utcRuntime brandExample]
  from t brandExample_row(1-3)
  have "getProp (masterItemV2 utcRuntime (brandExample ! 2)) ''brand_uid'' = getProp (brandExample ! 2) ''Brand'' \<and>
      length (filter (\<lambda>e. fst e = toStr utcRuntime (getProp (brandExample ! 2) ''Brand''))
                (brandsMap (itemMasterV2Rows utcRuntime brandExample))) = 1"
    by blast
  then have a: "getProp (masterItemV2 utcRuntime (brandExample ! 2)) ''brand_uid'' = JStr ''Acme''"
    and b: "length (filter (\<lambda>e. fst e = ''Acme'') (brandsMap (itemMasterV2Rows utcRuntime brandExample))) = 1"
    by (simp_all add: brandExample_row(4))
  have c: "map_of (brandsMap (itemMasterV2Rows utcRuntime brandExample)) ''Acme''
     = Some (brandEntry utcRuntime (brandExample ! 0))"
    by code_simp
  from a b c brandExample_row(1-3) show ?thesis
    by blast
qed

subsection \<open>Categories\<close>

text \<open>
  The identity of a category level of a row, and the identity of the nearest level
  below it that has one (\<^verbatim>\<open>null\<close> when there is none).
\<close>

definition levelId :: "runtime \<Rightarrow> jsobj \<Rightarrow> nat \<Rightarrow> jsval" where
  "levelId rt row level =
     effectiveUid rt (getProp row (levelUidCol level)) (getProp row (levelNameCol level))"

primrec precedingId :: "runtime \<Rightarrow> jsobj \<Rightarrow> nat \<Rightarrow> jsval" where
  "precedingId rt row 0 = JNull"
| "precedingId rt row (Suc n) =
     (if 0 < n \<and> levelId rt row n \<noteq> JNull then levelId rt row n else precedingId rt row n)"

text \<open>The key and the entry of a level, and the levels of a row that have an identity.\<close>

definition levelNode :: "runtime \<Rightarrow> jsobj \<Rightarrow> nat \<Rightarrow> string \<times> jsobj" where
  "levelNode rt row level =
     (toStr rt (levelId rt row level),
      categoryEntry (levelId rt row level) (getProp row (levelNameCol level))
        (precedingId rt row level))"

definition rowNodes :: "runtime \<Rightarrow> jsobj \<Rightarrow> (string \<times> jsobj) list" where
  "rowNodes rt row =
     map (levelNode rt row) (filter (\<lambda>level. levelId rt row level \<noteq> JNull) [1, 2, 3, 4, 5, 6])"

definition categoryNodes :: "runtime \<Rightarrow> jsobj list \<Rightarrow> (string \<times> jsobj) list" where
  "categoryNodes rt rows = concat (map (rowNodes rt) rows)"

definition named :: "string \<times> jsobj \<Rightarrow> bool" where
  "named node = (getProp (snd node) ''name'' \<noteq> JNull)"

text \<open>The keys of a list in the order of their first occurrence.\<close>

definition insertionOrder :: "'a list \<Rightarrow> 'a list" where
  "insertionOrder xs = rev (remdups (rev xs))"

text \<open>Lines 601 to 609 for one level.\<close>

definition register :: "string \<times> jsobj \<Rightarrow> jsobj jsmap \<Rightarrow> jsobj jsmap" where
  "register node m =
     (if (case map_of m (fst node) of
            None \<Rightarrow> True
          | Some existingEntry \<Rightarrow> getProp existingEntry ''name'' = JNull \<and> named node)
      then mapSet m (fst node) (snd node) else m)"

lemma categoryEntry_name: "getProp (categoryEntry current nm previous) ''name'' = nm"
  by (simp add: categoryEntry_def getProp_def)

lemma categoryLevels_step:
  "categoryLevels rt row (level # levels) previous m =
     (if levelId rt row level \<noteq> JNull
      then categoryLevels rt row levels (levelId rt row level) (register (levelNode rt row' level) m)
      else categoryLevels rt row levels previous m)"
  if "levelNode rt row' level
        = (toStr rt (levelId rt row level),
           categoryEntry (levelId rt row level) (getProp row (levelNameCol level)) previous)"
  using that
  by (simp add: levelId_def register_def named_def categoryEntry_name Let_def
      cong: option.case_cong)

lemma categoryLevels_nodes:
  "0 < a \<Longrightarrow>
   categoryLevels rt row [a ..< b] (precedingId rt row a) m
     = fold register (map (levelNode rt row) (filter (\<lambda>l. levelId rt row l \<noteq> JNull) [a ..< b])) m"
proof (induction "b - a" arbitrary: a m)
  case 0
  then show ?case
    by simp
next
  case (Suc n)
  then have lt: "a < b" and n: "n = b - Suc a" and pos: "0 < Suc a"
    by simp_all
  have up: "[a ..< b] = a # [Suc a ..< b]"
    using lt by (rule upt_conv_Cons)
  have node: "levelNode rt row a
        = (toStr rt (levelId rt row a),
           categoryEntry (levelId rt row a) (getProp row (levelNameCol a)) (precedingId rt row a))"
    by (simp add: levelNode_def)
  show ?case
  proof (cases "levelId rt row a = JNull")
    case True
    then have p: "precedingId rt row (Suc a) = precedingId rt row a"
      by simp
    from True have l: "categoryLevels rt row [a ..< b] (precedingId rt row a) m
        = categoryLevels rt row [Suc a ..< b] (precedingId rt row (Suc a)) m"
      by (simp add: up categoryLevels_step [OF node] del: categoryLevels.simps precedingId.simps
          add: p)
    from True have r: "filter (\<lambda>l. levelId rt row l \<noteq> JNull) [a ..< b]
        = filter (\<lambda>l. levelId rt row l \<noteq> JNull) [Suc a ..< b]"
      by (simp add: up)
    from Suc.hyps(1) [OF n pos, of m] show ?thesis
      by (simp only: l r)
  next
    case False
    with Suc.prems have p: "precedingId rt row (Suc a) = levelId rt row a"
      by simp
    from False have l: "categoryLevels rt row [a ..< b] (precedingId rt row a) m
        = categoryLevels rt row [Suc a ..< b] (precedingId rt row (Suc a))
            (register (levelNode rt row a) m)"
      by (simp add: up categoryLevels_step [OF node] del: categoryLevels.simps precedingId.simps
          add: p)
    from False have r: "filter (\<lambda>l. levelId rt row l \<noteq> JNull) [a ..< b]
        = a # filter (\<lambda>l. levelId rt row l \<noteq> JNull) [Suc a ..< b]"
      by (simp add: up)
    from Suc.hyps(1) [OF n pos, of "register (levelNode rt row a) m"] show ?thesis
      by (simp only: l r list.map fold_simps o_apply)
  qed
qed

lemma levels_upt: "[1, 2, 3, 4, 5, 6] = [1 ..< 7]"
  by (simp add: upt_rec)

lemma categoriesStep_nodes: "categoriesStep rt row m = fold register (rowNodes rt row) m"
proof -
  have "categoryLevels rt row [1 ..< 7] (precedingId rt row 1) m
     = fold register (map (levelNode rt row) (filter (\<lambda>l. levelId rt row l \<noteq> JNull) [1 ..< 7])) m"
    by (rule categoryLevels_nodes) simp
  then show ?thesis
    by (simp only: categoriesStep_def rowNodes_def levels_upt) simp
qed

lemma categories_nodes:
  "fold (categoriesStep rt) rows m = fold register (categoryNodes rt rows) m"
  by (induction rows arbitrary: m) (simp_all add: categoryNodes_def categoriesStep_nodes)

lemma keys_mapSet:
  "map fst (mapSet m k v) = (if k \<in> fst ` set m then map fst m else map fst m @ [k])"
proof (cases "k \<in> fst ` set m")
  case True
  then have "map fst (mapSet m k v) = map fst m"
    by (simp only: mapSet_def mapHas_iff if_True keys_replace)
  with True show ?thesis
    by (simp only: if_True)
next
  case False
  then show ?thesis
    by (simp add: mapSet_def mapHas_iff)
qed

lemma keys_register:
  "map fst (register node m)
     = (if fst node \<in> fst ` set m then map fst m else map fst m @ [fst node])"
proof (cases "map_of m (fst node)")
  case None
  then show ?thesis
    by (simp add: register_def keys_mapSet)
next
  case (Some e)
  then have "fst node \<in> fst ` set m"
    by (metis map_of_eq_None_iff option.distinct(1))
  then show ?thesis
    by (simp add: register_def keys_mapSet Some)
qed

lemma insertionOrder_snoc:
  "insertionOrder (xs @ [x]) = (if x \<in> set xs then insertionOrder xs else insertionOrder xs @ [x])"
  by (simp add: insertionOrder_def)

lemma set_insertionOrder: "set (insertionOrder xs) = set xs"
  by (simp add: insertionOrder_def)

text \<open>The entry of a key: that of its first named node, else that of its first node.\<close>

definition entryOf :: "string \<Rightarrow> (string \<times> jsobj) list \<Rightarrow> jsobj option" where
  "entryOf k nodes =
     (case find (\<lambda>node. fst node = k \<and> named node) nodes of
        Some node \<Rightarrow> Some (snd node)
      | None \<Rightarrow> map_option snd (find (\<lambda>node. fst node = k) nodes))"

lemma entryOf_other: "fst node \<noteq> k \<Longrightarrow> entryOf k (nodes @ [node]) = entryOf k nodes"
  by (simp add: entryOf_def find_append_case split: option.splits)

lemma entryOf_same:
  "entryOf (fst node) (nodes @ [node])
     = (case entryOf (fst node) nodes of
          None \<Rightarrow> Some (snd node)
        | Some e \<Rightarrow> if getProp e ''name'' = JNull \<and> named node then Some (snd node) else Some e)"
proof (cases "find (\<lambda>n. fst n = fst node \<and> named n) nodes")
  case (Some n)
  then have "named n"
    by (auto simp: find_Some_iff)
  with Some show ?thesis
    by (simp add: entryOf_def find_append_case named_def)
next
  case None
  show ?thesis
  proof (cases "find (\<lambda>n. fst n = fst node) nodes")
    case inner: None
    with None show ?thesis
      by (simp add: entryOf_def find_append_case)
  next
    case (Some n)
    then have "n \<in> set nodes" and "fst n = fst node"
      by (auto simp: find_Some_iff)
    with None have "\<not> named n"
      by (cases n) (auto simp: find_None_iff)
    with None Some show ?thesis
      by (simp add: entryOf_def find_append_case named_def)
  qed
qed

lemma register_nodes:
  "map fst (fold register nodes []) = insertionOrder (map fst nodes) \<and>
   (\<forall>k. map_of (fold register nodes []) k = entryOf k nodes)"
proof (induction nodes rule: rev_induct)
  case Nil
  then show ?case
    by (simp add: insertionOrder_def entryOf_def)
next
  case (snoc node nodes)
  let ?m = "fold register nodes []"
  from snoc have keys: "map fst ?m = insertionOrder (map fst nodes)"
    and at: "map_of ?m k = entryOf k nodes" for k
    by blast+
  from keys have dom: "fst ` set ?m = fst ` set nodes"
    by (metis set_insertionOrder set_map)
  have k: "map fst (fold register (nodes @ [node]) []) = insertionOrder (map fst (nodes @ [node]))"
    by (simp add: keys_register dom insertionOrder_snoc keys)
  have "map_of (fold register (nodes @ [node]) []) k = entryOf k (nodes @ [node])" for k
  proof (cases "k = fst node")
    case True
    then show ?thesis
      by (simp add: register_def map_of_mapSet at entryOf_same split: option.splits)
  next
    case False
    then show ?thesis
      by (simp add: register_def map_of_mapSet at entryOf_other)
  qed
  with k show ?case
    by blast
qed

lemma entryOf_stable:
  assumes "entryOf k nodes = Some e" and "getProp e ''name'' \<noteq> JNull"
  shows "entryOf k (nodes @ rest) = Some e"
proof (cases "find (\<lambda>node. fst node = k \<and> named node) nodes")
  case (Some n)
  with assms(1) show ?thesis
    by (simp add: entryOf_def find_append_case)
next
  case None
  with assms(1) obtain n where n: "find (\<lambda>node. fst node = k) nodes = Some n" and e: "e = snd n"
    by (auto simp: entryOf_def)
  from n have "n \<in> set nodes" and "fst n = k"
    by (auto simp: find_Some_iff)
  with None have "\<not> named n"
    by (cases n) (auto simp: find_None_iff)
  with assms(2) e show ?thesis
    by (simp add: named_def)
qed

text \<open>
  A category that a first row gives without a name, below \<open>A\<close>, and that a second row
  names, below \<open>B\<close>.
\<close>

definition categoryRow1 :: jsobj where
  "categoryRow1 =
     [(''UID*'', JStr ''I1''),
      (''Category level 1 UID'', JStr ''A''), (''Category level 1'', JStr ''Alpha''),
      (''Category level 2 UID'', JStr ''C2''), (''Category level 2'', JNull)]"

definition categoryRow2 :: jsobj where
  "categoryRow2 =
     [(''UID*'', JStr ''I2''),
      (''Category level 1 UID'', JStr ''B''), (''Category level 1'', JStr ''Beta''),
      (''Category level 2 UID'', JStr ''C2''), (''Category level 2'', JStr ''Two'')]"

text \<open>
  C2, as stated, fails: the second row gives the category its name and, with the name,
  its own parent \<open>B\<close> in place of \<open>A\<close>.
\<close>

theorem category_parent_overwritten:
  "map_of (erpCategoriesMap (itemMasterV2Rows utcRuntime [categoryRow1])) ''C2''
     = Some [(''erp_category_uid'', JStr ''C2''), (''name'', JNull),
             (''parent_category_uid'', JStr ''A'')] \<and>
   map_of (erpCategoriesMap (itemMasterV2Rows utcRuntime [categoryRow1, categoryRow2])) ''C2''
     = Some [(''erp_category_uid'', JStr ''C2''), (''name'', JStr ''Two''),
             (''parent_category_uid'', JStr ''B'')]"
  by code_simp

text \<open>
  C2, amended: the nodes of a row are its levels with an identity, in ascending order,
  each with the identity of the nearest such level below it on that row as parent (so
  the level 2 above a level 4 when level 3 has none). The categories hold the keys of the
  nodes of all rows in the order of their first occurrence; the entry of a key is that of
  its first node with a name that is not \<^verbatim>\<open>null\<close>, parent included, and that of
  its first node when there is none. An entry with such a name is never changed by
  later rows.
\<close>

theorem category_chain:
  "map fst (erpCategoriesMap (itemMasterV2Rows rt rows))
     = insertionOrder (map fst (categoryNodes rt rows)) \<and>
   (\<forall>k. map_of (erpCategoriesMap (itemMasterV2Rows rt rows)) k = entryOf k (categoryNodes rt rows)) \<and>
   (\<forall>row. levelId rt row 2 \<noteq> JNull \<and> levelId rt row 3 = JNull \<and> levelId rt row 4 \<noteq> JNull \<longrightarrow>
      (toStr rt (levelId rt row 4),
       categoryEntry (levelId rt row 4) (getProp row (levelNameCol 4)) (levelId rt row 2))
        \<in> set (rowNodes rt row)) \<and>
   (\<forall>k e rest.
      map_of (erpCategoriesMap (itemMasterV2Rows rt rows)) k = Some e \<and> getProp e ''name'' \<noteq> JNull \<longrightarrow>
      map_of (erpCategoriesMap (itemMasterV2Rows rt (rows @ rest))) k = Some e)"
proof -
  have m: "erpCategoriesMap (itemMasterV2Rows rt rs) = fold register (categoryNodes rt rs) []" for rs
    using itemMasterV2Rows_fields [of rt rs] by (simp add: categories_nodes)
  have keys: "map fst (erpCategoriesMap (itemMasterV2Rows rt rows))
     = insertionOrder (map fst (categoryNodes rt rows))"
    and at: "map_of (erpCategoriesMap (itemMasterV2Rows rt rs)) k = entryOf k (categoryNodes rt rs)"
    for k rs
    using register_nodes [of "categoryNodes rt rows"] register_nodes [of "categoryNodes rt rs"]
    by (simp_all add: m)
  have gap: "(toStr rt (levelId rt row 4),
       categoryEntry (levelId rt row 4) (getProp row (levelNameCol 4)) (levelId rt row 2))
        \<in> set (rowNodes rt row)"
    if "levelId rt row 2 \<noteq> JNull \<and> levelId rt row 3 = JNull \<and> levelId rt row 4 \<noteq> JNull" for row
  proof -
    have "precedingId rt row 4 = precedingId rt row (Suc (Suc (Suc (Suc 0))))"
      by (simp add: numeral_eq_Suc)
    also from that have "\<dots> = levelId rt row 2"
      by (simp add: numeral_2_eq_2 numeral_3_eq_3)
    finally have "levelNode rt row 4
      = (toStr rt (levelId rt row 4),
         categoryEntry (levelId rt row 4) (getProp row (levelNameCol 4)) (levelId rt row 2))"
      by (simp add: levelNode_def)
    moreover from that have "levelNode rt row 4 \<in> set (rowNodes rt row)"
      by (simp add: rowNodes_def)
    ultimately show ?thesis
      by simp
  qed
  have stable: "map_of (erpCategoriesMap (itemMasterV2Rows rt (rows @ rest))) k = Some e"
    if "map_of (erpCategoriesMap (itemMasterV2Rows rt rows)) k = Some e \<and> getProp e ''name'' \<noteq> JNull"
    for k e rest
  proof -
    from that have "entryOf k (categoryNodes rt rows) = Some e" and "getProp e ''name'' \<noteq> JNull"
      by (simp_all add: at)
    then have "entryOf k (categoryNodes rt rows @ categoryNodes rt rest) = Some e"
      by (rule entryOf_stable)
    then show ?thesis
      by (simp add: at categoryNodes_def)
  qed
  from keys at gap stable show ?thesis
    by blast
qed

definition gapRow :: jsobj where
  "gapRow =
     [(''UID*'', JStr ''I1''),
      (''Category level 1 UID'', JNull), (''Category level 1'', JNull),
      (''Category level 2 UID'', JNull), (''Category level 2'', JStr ''Food''),
      (''Category level 3 UID'', JNull), (''Category level 3'', JNull),
      (''Category level 4 UID'', JStr ''C4''), (''Category level 4'', JStr ''Milk'')]"

definition laterRow :: jsobj where
  "laterRow =
     [(''UID*'', JStr ''I2''),
      (''Category level 1'', JStr ''Drinks''),
      (''Category level 4 UID'', JStr ''C4''), (''Category level 4'', JStr ''Dairy'')]"

lemma gapRow_levels:
  "levelId utcRuntime gapRow 2 = JStr ''Food''"
  "levelId utcRuntime gapRow 3 = JNull"
  "levelId utcRuntime gapRow 4 = JStr ''C4''"
  "getProp gapRow (levelNameCol 4) = JStr ''Milk''"
  by code_simp+

lemma gapRow_categories:
  "erpCategoriesMap (itemMasterV2Rows utcRuntime [gapRow]) =
     [(''Food'', [(''erp_category_uid'', JStr ''Food''), (''name'', JStr ''Food''),
                  (''parent_category_uid'', JNull)]),
      (''C4'', [(''erp_category_uid'', JStr ''C4''), (''name'', JStr ''Milk''),
                (''parent_category_uid'', JStr ''Food'')])]"
  by code_simp

theorem category_chain_witness:
  "levelId utcRuntime gapRow 2 \<noteq> JNull \<and> levelId utcRuntime gapRow 3 = JNull \<and>
   levelId utcRuntime gapRow 4 \<noteq> JNull \<and>
   (''C4'', [(''erp_category_uid'', JStr ''C4''), (''name'', JStr ''Milk''),
             (''parent_category_uid'', JStr ''Food'')]) \<in> set (rowNodes utcRuntime gapRow) \<and>
   map_of (erpCategoriesMap (itemMasterV2Rows utcRuntime [gapRow])) ''C4''
     = Some [(''erp_category_uid'', JStr ''C4''), (''name'', JStr ''Milk''),
             (''parent_category_uid'', JStr ''Food'')] \<and>
   map_of (erpCategoriesMap (itemMasterV2Rows utcRuntime ([gapRow] @ [laterRow]))) ''C4''
     = Some [(''erp_category_uid'', JStr ''C4''), (''name'', JStr ''Milk''),
             (''parent_category_uid'', JStr ''Food'')]"
proof -
  note t = category_chain [of utcRuntime "[gapRow]"]
  let ?e = "[(''erp_category_uid'', JStr ''C4''), (''name'', JStr ''Milk''),
             (''parent_category_uid'', JStr ''Food'')]"
  have l: "levelId utcRuntime gapRow 2 \<noteq> JNull \<and> levelId utcRuntime gapRow 3 = JNull \<and>
      levelId utcRuntime gapRow 4 \<noteq> JNull"
    by (simp add: gapRow_levels)
  with t have "(toStr utcRuntime (levelId utcRuntime gapRow 4),
       categoryEntry (levelId utcRuntime gapRow 4) (getProp gapRow (levelNameCol 4))
         (levelId utcRuntime gapRow 2)) \<in> set (rowNodes utcRuntime gapRow)"
    by blast
  then have n: "(''C4'', ?e) \<in> set (rowNodes utcRuntime gapRow)"
    by (simp add: gapRow_levels categoryEntry_def)
  have a: "map_of (erpCategoriesMap (itemMasterV2Rows utcRuntime [gapRow])) ''C4'' = Some ?e"
    by (simp add: gapRow_categories)
  moreover have "getProp ?e ''name'' \<noteq> JNull"
    by (simp add: getProp_def)
  ultimately have "map_of (erpCategoriesMap (itemMasterV2Rows utcRuntime ([gapRow] @ [laterRow]))) ''C4''
      = Some ?e"
    using t by blast
  with l n a show ?thesis
    by blast
qed

section \<open>Properties of the item master, first format\<close>

text \<open>The item id of a row, lines 391 to 394: \<open>None\<close> when the row is skipped.\<close>

definition rowUid :: "runtime \<Rightarrow> jsobj \<Rightarrow> string option" where
  "rowUid rt row =
     (let uidValue = getProp row ''UID*'' in
      if uidValue = JNull \<or> uidValue = JUndef then None
      else (let uid = trim (toStr rt uidValue) in if uid = [] then None else Some uid))"

definition firstRow :: "runtime \<Rightarrow> jsobj list \<Rightarrow> string \<Rightarrow> jsobj option" where
  "firstRow rt rows uid = find (\<lambda>row. rowUid rt row = Some uid) rows"

lemma itemMasterStep_skip: "rowUid rt row = None \<Longrightarrow> itemMasterStep rt row st = st"
  by (auto simp: rowUid_def itemMasterStep_def Let_def split: if_splits)

lemma itemMasterStep_uid:
  assumes "rowUid rt row = Some uid"
  shows "masteritemsData (itemMasterStep rt row st) =
           (if uid \<in> set (seenUids st) then masteritemsData st else masteritemsData st @ [masterItem rt uid row])"
    and "seenUids (itemMasterStep rt row st) = setAdd (seenUids st) uid"
    and "barcodesData (itemMasterStep rt row st) =
           (if truthy (getProp row ''Barcode'') then barcodesData st @ [barcodeRecord uid row] else barcodesData st)"
    and "dimensionsData (itemMasterStep rt row st) =
           (if truthy (getProp row ''Unit'') then dimensionsData st @ [dimensionRecord rt uid row]
            else dimensionsData st)"
    and "seenBrands (itemMasterStep rt row st) =
           (if truthy (getProp row ''Brand'') then setAdd (seenBrands st) (toStr rt (getProp row ''Brand''))
            else seenBrands st)"
    and "seenManufacturers (itemMasterStep rt row st) =
           (if truthy (getProp row ''Manufacturer'')
            then setAdd (seenManufacturers st) (toStr rt (getProp row ''Manufacturer''))
            else seenManufacturers st)"
    and "seenErpCategories (itemMasterStep rt row st)
           = fold (categoryStep rt row) [0, 1, 2, 3] (seenErpCategories st)"
  using assms by (auto simp: rowUid_def itemMasterStep_def Let_def split: if_splits)

lemma itemMasterRows_snoc:
  "itemMasterRows rt (rows @ [row]) = itemMasterStep rt row (itemMasterRows rt rows)"
  by (simp add: itemMasterRows_def)

lemma firstRow_snoc:
  "firstRow rt (rows @ [row]) uid =
     (case firstRow rt rows uid of
        Some r \<Rightarrow> Some r
      | None \<Rightarrow> if rowUid rt row = Some uid then Some row else None)"
  by (simp add: firstRow_def find_append_case split: option.splits)

lemma firstRow_None: "firstRow rt rows uid = None \<longleftrightarrow> (\<forall>row \<in> set rows. rowUid rt row \<noteq> Some uid)"
  by (auto simp: firstRow_def find_None_iff)

lemma masterItem_uid: "getProp (masterItem rt uid row) ''item_uid'' = JStr uid"
  by (simp add: masterItem_def getProp_def)

text \<open>
  Trimming: the white space and line terminators of ECMA-262 among the characters of
  one byte; \<open>t\<close> is \<open>s\<close> trimmed when \<open>s\<close> is \<open>t\<close> between two runs of white space, and
  \<open>t\<close> neither starts nor ends with white space.
\<close>

abbreviation (input) whiteSpace :: "char set" where
  "whiteSpace \<equiv> {CHR 0x09, CHR 0x0A, CHR 0x0B, CHR 0x0C, CHR 0x0D, CHR 0x20, CHR 0xA0}"

lemma isWhiteSpace_iff: "isWhiteSpace c \<longleftrightarrow> c \<in> whiteSpace"
  by (simp add: isWhiteSpace_def)

lemma trim_decomp:
  "\<exists>a b. s = a @ trim s @ b \<and> (\<forall>c \<in> set a. isWhiteSpace c) \<and> (\<forall>c \<in> set b. isWhiteSpace c)"
proof -
  let ?d = "dropWhile isWhiteSpace s"
  let ?a = "takeWhile isWhiteSpace s"
  let ?b = "rev (takeWhile isWhiteSpace (rev ?d))"
  have "rev ?d = takeWhile isWhiteSpace (rev ?d) @ dropWhile isWhiteSpace (rev ?d)"
    by simp
  then have "rev (rev ?d) = rev (takeWhile isWhiteSpace (rev ?d) @ dropWhile isWhiteSpace (rev ?d))"
    by (simp only:)
  then have d: "?d = trim s @ ?b"
    by (simp only: trim_def rev_rev_ident rev_append)
  have "s = ?a @ ?d"
    by simp
  with d have "s = ?a @ trim s @ ?b"
    by (simp only:)
  moreover have "\<forall>c \<in> set ?a. isWhiteSpace c"
    by (auto dest: set_takeWhileD)
  moreover have "\<forall>c \<in> set ?b. isWhiteSpace c"
    by (auto dest: set_takeWhileD)
  ultimately show ?thesis
    by blast
qed

lemma trim_ends:
  assumes "trim s \<noteq> []"
  shows "\<not> isWhiteSpace (hd (trim s)) \<and> \<not> isWhiteSpace (last (trim s))"
proof -
  let ?d = "dropWhile isWhiteSpace s"
  let ?e = "dropWhile isWhiteSpace (rev ?d)"
  from assms have e: "?e \<noteq> []"
    by (simp add: trim_def)
  then have "\<not> isWhiteSpace (hd ?e)"
    by (rule hd_dropWhile)
  with e have l: "\<not> isWhiteSpace (last (trim s))"
    by (simp add: trim_def last_rev)
  from e have d: "?d \<noteq> []"
    by (metis dropWhile.simps(1) rev.simps(1))
  then have h: "\<not> isWhiteSpace (hd ?d)"
    by (rule hd_dropWhile)
  have "rev ?d = takeWhile isWhiteSpace (rev ?d) @ ?e"
    by simp
  then have "rev (rev ?d) = rev (takeWhile isWhiteSpace (rev ?d) @ ?e)"
    by (simp only:)
  then have "?d = trim s @ rev (takeWhile isWhiteSpace (rev ?d))"
    by (simp only: trim_def rev_rev_ident rev_append)
  with assms have "hd ?d = hd (trim s)"
    by (metis hd_append2)
  with h l show ?thesis
    by simp
qed

lemma trim_unique:
  assumes s: "s = a @ t @ b" and a: "\<forall>c \<in> set a. isWhiteSpace c" and b: "\<forall>c \<in> set b. isWhiteSpace c"
    and t: "t \<noteq> []" "\<not> isWhiteSpace (hd t)" "\<not> isWhiteSpace (last t)"
  shows "trim s = t"
proof -
  from t obtain x xs where x: "t = x # xs" and nx: "\<not> isWhiteSpace x"
    by (cases t) auto
  from t obtain y ys where y: "rev t = y # ys" and ny: "\<not> isWhiteSpace y"
    by (cases "rev t") (auto simp: last_rev [symmetric] hd_rev)
  from a have "dropWhile isWhiteSpace s = dropWhile isWhiteSpace (t @ b)"
    unfolding s by (intro dropWhile_append2) simp
  also from nx have "\<dots> = t @ b"
    by (simp add: x)
  finally have "dropWhile isWhiteSpace (rev (dropWhile isWhiteSpace s))
      = dropWhile isWhiteSpace (rev b @ rev t)"
    by simp
  also from b have "\<dots> = dropWhile isWhiteSpace (rev t)"
    by (intro dropWhile_append2) simp
  also from ny have "\<dots> = rev t"
    by (simp add: y)
  finally show ?thesis
    by (simp add: trim_def)
qed

lemma rowUid_trimmed_ws:
  "rowUid rt row = Some uid \<longleftrightarrow>
     getProp row ''UID*'' \<noteq> JNull \<and> getProp row ''UID*'' \<noteq> JUndef \<and>
     uid \<noteq> [] \<and> \<not> isWhiteSpace (hd uid) \<and> \<not> isWhiteSpace (last uid) \<and>
     (\<exists>a b. toStr rt (getProp row ''UID*'') = a @ uid @ b \<and>
        (\<forall>c \<in> set a. isWhiteSpace c) \<and> (\<forall>c \<in> set b. isWhiteSpace c))"
  (is "?l \<longleftrightarrow> ?r")
proof
  let ?s = "toStr rt (getProp row ''UID*'')"
  assume ?l
  then have v: "getProp row ''UID*'' \<noteq> JNull" "getProp row ''UID*'' \<noteq> JUndef"
    and uid: "uid = trim ?s" "uid \<noteq> []"
    by (auto simp: rowUid_def Let_def split: if_splits)
  from trim_decomp [of ?s] have "\<exists>a b. ?s = a @ uid @ b \<and>
      (\<forall>c \<in> set a. isWhiteSpace c) \<and> (\<forall>c \<in> set b. isWhiteSpace c)"
    unfolding uid(1) .
  moreover from trim_ends [of ?s] uid have "\<not> isWhiteSpace (hd uid) \<and> \<not> isWhiteSpace (last uid)"
    by simp
  ultimately show ?r
    using v uid(2) by blast
next
  let ?s = "toStr rt (getProp row ''UID*'')"
  assume r: ?r
  then obtain a b where s: "?s = a @ uid @ b"
    and ab: "\<forall>c \<in> set a. isWhiteSpace c" "\<forall>c \<in> set b. isWhiteSpace c"
    by blast
  from r have t: "uid \<noteq> []" "\<not> isWhiteSpace (hd uid)" "\<not> isWhiteSpace (last uid)"
    by blast+
  from s ab t have "trim ?s = uid"
    by (rule trim_unique)
  with r show ?l
    by (simp add: rowUid_def Let_def)
qed

lemma rowUid_trimmed:
  "rowUid rt row = Some uid \<longleftrightarrow>
     getProp row ''UID*'' \<noteq> JNull \<and> getProp row ''UID*'' \<noteq> JUndef \<and>
     uid \<noteq> [] \<and> hd uid \<notin> whiteSpace \<and> last uid \<notin> whiteSpace \<and>
     (\<exists>a b. toStr rt (getProp row ''UID*'') = a @ uid @ b \<and>
        set a \<subseteq> whiteSpace \<and> set b \<subseteq> whiteSpace)"
  by (simp only: rowUid_trimmed_ws subset_eq isWhiteSpace_iff)

text \<open>
  The side records of the rows: the brand and the manufacturer of every row with an id,
  and its four category levels, each with its key; lines 408 and 411 to 420.
\<close>

definition brandNames :: "runtime \<Rightarrow> jsobj list \<Rightarrow> string list" where
  "brandNames rt rows =
     map (\<lambda>row. toStr rt (getProp row ''Brand''))
       (filter (\<lambda>row. rowUid rt row \<noteq> None \<and> truthy (getProp row ''Brand'')) rows)"

definition manufacturerNames :: "runtime \<Rightarrow> jsobj list \<Rightarrow> string list" where
  "manufacturerNames rt rows =
     map (\<lambda>row. toStr rt (getProp row ''Manufacturer''))
       (filter (\<lambda>row. rowUid rt row \<noteq> None \<and> truthy (getProp row ''Manufacturer'')) rows)"

definition levelRecord :: "runtime \<Rightarrow> jsobj \<Rightarrow> nat \<Rightarrow> (string \<times> jsobj) list" where
  "levelRecord rt row index =
     (let levelName = levelMapping ! index;
          catUid = getProp row (levelName @ '' Code'')
      in if truthy catUid then
           [(toStr rt catUid,
             [(''erp_category_uid'', catUid),
              (''name'', getProp row (levelName @ '' Description'')),
              (''parent_category_uid'',
                 if 0 < index then getProp row (levelMapping ! (index - 1) @ '' Code'') else JNull)])]
         else [])"

definition levelRecords :: "runtime \<Rightarrow> jsobj list \<Rightarrow> (string \<times> jsobj) list" where
  "levelRecords rt rows =
     concat (map (\<lambda>row. concat (map (levelRecord rt row) [0, 1, 2, 3]))
               (filter (\<lambda>row. rowUid rt row \<noteq> None) rows))"

text \<open>\<^verbatim>\<open>if (!seen.has(key)) seen.set(key, entry)\<close>: the first entry of a key stays.\<close>

definition addFirst :: "string \<times> jsobj \<Rightarrow> jsobj jsmap \<Rightarrow> jsobj jsmap" where
  "addFirst node m = (if mapHas m (fst node) then m else mapSet m (fst node) (snd node))"

lemma categoryStep_levelRecord:
  "categoryStep rt row index seen = fold addFirst (levelRecord rt row index) seen"
  by (simp add: categoryStep_def levelRecord_def addFirst_def Let_def)

lemma categorySteps_levelRecords:
  "fold (categoryStep rt row) [0, 1, 2, 3] seen
     = fold addFirst (concat (map (levelRecord rt row) [0, 1, 2, 3])) seen"
  by (simp add: categoryStep_levelRecord)

lemma addFirst_nodes:
  "map fst (fold addFirst nodes []) = insertionOrder (map fst nodes) \<and>
   (\<forall>k. map_of (fold addFirst nodes []) k = map_of nodes k)"
proof (induction nodes rule: rev_induct)
  case Nil
  then show ?case
    by (simp add: insertionOrder_def)
next
  case (snoc node nodes)
  let ?m = "fold addFirst nodes []"
  from snoc have keys: "map fst ?m = insertionOrder (map fst nodes)"
    and at: "map_of ?m k = map_of nodes k" for k
    by blast+
  from keys have dom: "fst ` set ?m = fst ` set nodes"
    by (metis set_insertionOrder set_map)
  have k: "map fst (fold addFirst (nodes @ [node]) []) = insertionOrder (map fst (nodes @ [node]))"
    by (simp add: addFirst_def mapHas_iff keys_mapSet dom insertionOrder_snoc keys)
  have "map_of (fold addFirst (nodes @ [node]) []) k = map_of (nodes @ [node]) k" for k
  proof (cases "map_of nodes (fst node)")
    case None
    then have "\<not> mapHas ?m (fst node)"
      by (simp add: mapHas_def at)
    with None show ?thesis
      by (cases node) (simp add: addFirst_def map_of_mapSet at map_add_def split: option.splits)
  next
    case (Some e)
    then have "mapHas ?m (fst node)"
      by (simp add: mapHas_def at)
    with Some show ?thesis
      by (cases node) (auto simp: addFirst_def at map_add_def split: option.splits)
  qed
  with k show ?case
    by blast
qed

lemma setAdd_names:
  "fold (\<lambda>x seen. setAdd seen x) names [] = insertionOrder names"
  by (induction names rule: rev_induct) (simp_all add: insertionOrder_def setAdd_def)

text \<open>What the loop has built after the rows: the invariant of the loop of lines 390 to 421.\<close>

definition rowUids :: "runtime \<Rightarrow> jsobj list \<Rightarrow> string set" where
  "rowUids rt rows = {uid. \<exists>row \<in> set rows. rowUid rt row = Some uid}"

definition barcodeRows :: "runtime \<Rightarrow> jsobj list \<Rightarrow> jsobj list" where
  "barcodeRows rt rows =
     concat (map (\<lambda>row. case rowUid rt row of
                          None \<Rightarrow> []
                        | Some uid \<Rightarrow> if truthy (getProp row ''Barcode'') then [barcodeRecord uid row] else [])
                 rows)"

definition dimensionRows :: "runtime \<Rightarrow> jsobj list \<Rightarrow> jsobj list" where
  "dimensionRows rt rows =
     concat (map (\<lambda>row. case rowUid rt row of
                          None \<Rightarrow> []
                        | Some uid \<Rightarrow> if truthy (getProp row ''Unit'') then [dimensionRecord rt uid row] else [])
                 rows)"

lemma itemMasterRows_invariant:
  "distinct (seenUids (itemMasterRows rt rows)) \<and>
   set (seenUids (itemMasterRows rt rows)) = rowUids rt rows \<and>
   map (\<lambda>r. getProp r ''item_uid'') (masteritemsData (itemMasterRows rt rows))
     = map JStr (seenUids (itemMasterRows rt rows)) \<and>
   (\<forall>r \<in> set (masteritemsData (itemMasterRows rt rows)).
      \<exists>uid row. firstRow rt rows uid = Some row \<and> r = masterItem rt uid row) \<and>
   barcodesData (itemMasterRows rt rows) = barcodeRows rt rows \<and>
   dimensionsData (itemMasterRows rt rows) = dimensionRows rt rows"
proof (induction rows rule: rev_induct)
  case Nil
  then show ?case
    by (simp add: itemMasterRows_def emptyItemMasterState_def rowUids_def barcodeRows_def dimensionRows_def)
next
  case (snoc row rows)
  let ?st = "itemMasterRows rt rows"
  from snoc have d: "distinct (seenUids ?st)" and s: "set (seenUids ?st) = rowUids rt rows"
    and m: "map (\<lambda>r. getProp r ''item_uid'') (masteritemsData ?st) = map JStr (seenUids ?st)"
    and f: "\<forall>r \<in> set (masteritemsData ?st). \<exists>uid row. firstRow rt rows uid = Some row \<and> r = masterItem rt uid row"
    and b: "barcodesData ?st = barcodeRows rt rows"
    and dm: "dimensionsData ?st = dimensionRows rt rows"
    by blast+
  show ?case
  proof (cases "rowUid rt row")
    case None
    have keep: "firstRow rt (rows @ [row]) uid = firstRow rt rows uid" for uid
      by (simp add: firstRow_snoc None split: option.splits)
    have "rowUids rt (rows @ [row]) = rowUids rt rows"
      by (auto simp: rowUids_def None)
    then show ?thesis
      using d s m f b dm
      by (simp add: itemMasterRows_snoc itemMasterStep_skip [OF None] keep barcodeRows_def
          dimensionRows_def None)
  next
    case (Some uid)
    note step = itemMasterStep_uid [OF Some, of ?st]
    have uids: "rowUids rt (rows @ [row]) = insert uid (rowUids rt rows)"
      by (auto simp: rowUids_def Some)
    have old: "firstRow rt (rows @ [row]) u = Some r" if "firstRow rt rows u = Some r" for u r
      using that by (simp add: firstRow_snoc)
    have c1: "distinct (seenUids (itemMasterRows rt (rows @ [row])))"
      using d by (simp add: itemMasterRows_snoc step setAdd_def)
    have c2: "set (seenUids (itemMasterRows rt (rows @ [row]))) = rowUids rt (rows @ [row])"
      using s by (auto simp: itemMasterRows_snoc step setAdd_def uids)
    have c3: "map (\<lambda>r. getProp r ''item_uid'') (masteritemsData (itemMasterRows rt (rows @ [row])))
        = map JStr (seenUids (itemMasterRows rt (rows @ [row])))"
      using m by (simp add: itemMasterRows_snoc step setAdd_def masterItem_uid)
    have c4: "\<exists>u r'. firstRow rt (rows @ [row]) u = Some r' \<and> r = masterItem rt u r'"
      if r: "r \<in> set (masteritemsData (itemMasterRows rt (rows @ [row])))" for r
    proof (cases "r \<in> set (masteritemsData ?st)")
      case True
      with f obtain u r' where "firstRow rt rows u = Some r'" "r = masterItem rt u r'"
        by blast
      with old show ?thesis
        by blast
    next
      case False
      with r have new: "uid \<notin> set (seenUids ?st)" and eq: "r = masterItem rt uid row"
        by (auto simp: itemMasterRows_snoc step split: if_splits)
      from new s have "firstRow rt rows uid = None"
        by (auto simp: firstRow_None rowUids_def)
      then have "firstRow rt (rows @ [row]) uid = Some row"
        by (simp add: firstRow_snoc Some)
      with eq show ?thesis
        by blast
    qed
    have c5: "barcodesData (itemMasterRows rt (rows @ [row])) = barcodeRows rt (rows @ [row])"
      using b by (simp add: itemMasterRows_snoc step barcodeRows_def Some)
    have c6: "dimensionsData (itemMasterRows rt (rows @ [row])) = dimensionRows rt (rows @ [row])"
      using dm by (simp add: itemMasterRows_snoc step dimensionRows_def Some)
    from c1 c2 c3 c4 c5 c6 show ?thesis
      by blast
  qed
qed

lemma itemMasterRows_side:
  "seenBrands (itemMasterRows rt rows) = fold (\<lambda>x seen. setAdd seen x) (brandNames rt rows) [] \<and>
   seenManufacturers (itemMasterRows rt rows)
     = fold (\<lambda>x seen. setAdd seen x) (manufacturerNames rt rows) [] \<and>
   seenErpCategories (itemMasterRows rt rows) = fold addFirst (levelRecords rt rows) []"
proof (induction rows rule: rev_induct)
  case Nil
  then show ?case
    by (simp add: itemMasterRows_def emptyItemMasterState_def brandNames_def manufacturerNames_def
        levelRecords_def)
next
  case (snoc row rows)
  show ?case
  proof (cases "rowUid rt row")
    case None
    with snoc show ?thesis
      by (simp add: itemMasterRows_snoc itemMasterStep_skip [OF None] brandNames_def
          manufacturerNames_def levelRecords_def)
  next
    case (Some uid)
    note step = itemMasterStep_uid(5-7) [OF Some, of "itemMasterRows rt rows"]
    from snoc show ?thesis
      by (simp add: itemMasterRows_snoc step brandNames_def manufacturerNames_def levelRecords_def
          Some categoryStep_levelRecord)
  qed
qed

text \<open>
  C5: the item ids of the master items are distinct, and they are the trimmed ids of
  the rows: one record for each id. The record of an id is made from the first row with
  that id. The id of a row is the string form of its id cell without the white space
  around it; a row without an id cell, or with a blank one, has none and is skipped.
  Every row with an id, first or later, gives its side records: its barcode record, its
  dimension record, its brand and its manufacturer (each name once, in the order of the
  first occurrences) and its category levels (the keys in the order of their first
  occurrences, each with the entry of its first occurrence).
\<close>

theorem item_master_one_record_per_id:
  "distinct (map (\<lambda>r. getProp r ''item_uid'') (masteritemsData (itemMasterRows rt rows))) \<and>
   set (map (\<lambda>r. getProp r ''item_uid'') (masteritemsData (itemMasterRows rt rows)))
     = JStr ` rowUids rt rows \<and>
   (\<forall>r \<in> set (masteritemsData (itemMasterRows rt rows)).
      \<exists>uid row. firstRow rt rows uid = Some row \<and> r = masterItem rt uid row) \<and>
   (\<forall>row uid.
      rowUid rt row = Some uid \<longleftrightarrow>
        getProp row ''UID*'' \<noteq> JNull \<and> getProp row ''UID*'' \<noteq> JUndef \<and>
        uid \<noteq> [] \<and> hd uid \<notin> whiteSpace \<and> last uid \<notin> whiteSpace \<and>
        (\<exists>a b. toStr rt (getProp row ''UID*'') = a @ uid @ b \<and>
           set a \<subseteq> whiteSpace \<and> set b \<subseteq> whiteSpace)) \<and>
   barcodesData (itemMasterRows rt rows) = barcodeRows rt rows \<and>
   dimensionsData (itemMasterRows rt rows) = dimensionRows rt rows \<and>
   seenBrands (itemMasterRows rt rows) = insertionOrder (brandNames rt rows) \<and>
   seenManufacturers (itemMasterRows rt rows) = insertionOrder (manufacturerNames rt rows) \<and>
   map fst (seenErpCategories (itemMasterRows rt rows))
     = insertionOrder (map fst (levelRecords rt rows)) \<and>
   (\<forall>k. map_of (seenErpCategories (itemMasterRows rt rows)) k = map_of (levelRecords rt rows) k)"
proof -
  note inv = itemMasterRows_invariant [of rt rows]
  note side = itemMasterRows_side [of rt rows]
  from inv have "distinct (map JStr (seenUids (itemMasterRows rt rows)))"
    by (simp add: distinct_map inj_on_def)
  with inv have c1: "distinct (map (\<lambda>r. getProp r ''item_uid'') (masteritemsData (itemMasterRows rt rows)))"
    by simp
  from inv have "set (map (\<lambda>r. getProp r ''item_uid'') (masteritemsData (itemMasterRows rt rows)))
      = set (map JStr (seenUids (itemMasterRows rt rows)))"
    by simp
  also from inv have "\<dots> = JStr ` rowUids rt rows"
    by simp
  finally have c2: "set (map (\<lambda>r. getProp r ''item_uid'') (masteritemsData (itemMasterRows rt rows)))
      = JStr ` rowUids rt rows" .
  from inv have c3: "\<forall>r \<in> set (masteritemsData (itemMasterRows rt rows)).
      \<exists>uid row. firstRow rt rows uid = Some row \<and> r = masterItem rt uid row"
    and c5: "barcodesData (itemMasterRows rt rows) = barcodeRows rt rows"
    and c6: "dimensionsData (itemMasterRows rt rows) = dimensionRows rt rows"
    by blast+
  from side have c7: "seenBrands (itemMasterRows rt rows) = insertionOrder (brandNames rt rows)"
    and c8: "seenManufacturers (itemMasterRows rt rows) = insertionOrder (manufacturerNames rt rows)"
    and cats: "seenErpCategories (itemMasterRows rt rows) = fold addFirst (levelRecords rt rows) []"
    by (simp_all add: setAdd_names)
  from addFirst_nodes [of "levelRecords rt rows"]
  have c9: "map fst (seenErpCategories (itemMasterRows rt rows))
      = insertionOrder (map fst (levelRecords rt rows))"
    and c10: "map_of (seenErpCategories (itemMasterRows rt rows)) k = map_of (levelRecords rt rows) k"
    for k
    unfolding cats by blast+
  show ?thesis
    by (intro conjI allI c1 c2 c3 rowUid_trimmed c5 c6 c7 c8 c9 c10)
qed

text \<open>
  Four rows: an id with a space before it, a row without an id, the same id with a tab
  and a space after it, and a blank id.
\<close>

definition itemMasterExample :: "jsobj list" where
  "itemMasterExample =
     [[(''UID*'', JStr '' X1''), (''Product name*'', JStr ''First''), (''Barcode'', JStr ''111''),
       (''Brand'', JStr ''Acme''), (''Manufacturer'', JStr ''Maker''),
       (''Segment Code'', JStr ''S1''), (''Segment Description'', JStr ''Food'')],
      [(''UID*'', JNull), (''Product name*'', JStr ''None''), (''Barcode'', JStr ''000''),
       (''Brand'', JStr ''Ghost'')],
      [(''UID*'', JStr (''X1'' @ [CHR 0x09, CHR 0x20])), (''Product name*'', JStr ''Second''),
       (''Barcode'', JStr ''222''), (''Brand'', JStr ''Best''), (''Manufacturer'', JStr ''Maker''),
       (''Segment Code'', JStr ''S1''), (''Segment Description'', JStr ''Other''),
       (''Family Code'', JStr ''F1''), (''Family Description'', JStr ''Milk'')],
      [(''UID*'', JStr ''  ''), (''Barcode'', JStr ''333''), (''Brand'', JStr ''Blank'')]]"

lemma itemMasterExample_items:
  "map (\<lambda>r. (getProp r ''item_uid'', getProp r ''name''))
     (masteritemsData (itemMasterRows utcRuntime itemMasterExample)) = [(JStr ''X1'', JStr ''First'')]"
  "firstRow utcRuntime itemMasterExample ''X1'' = Some (itemMasterExample ! 0)"
  by code_simp+

lemma itemMasterExample_side:
  "barcodeRows utcRuntime itemMasterExample
     = [[(''item_uid'', JStr ''X1''), (''barcode'', JStr ''111''), (''is_main'', JNum (Fin 1 0))],
        [(''item_uid'', JStr ''X1''), (''barcode'', JStr ''222''), (''is_main'', JNum (Fin 1 0))]]"
  "insertionOrder (brandNames utcRuntime itemMasterExample) = [''Acme'', ''Best'']"
  "insertionOrder (manufacturerNames utcRuntime itemMasterExample) = [''Maker'']"
  "insertionOrder (map fst (levelRecords utcRuntime itemMasterExample)) = [''S1'', ''F1'']"
  "map_of (levelRecords utcRuntime itemMasterExample) ''S1''
     = Some [(''erp_category_uid'', JStr ''S1''), (''name'', JStr ''Food''),
             (''parent_category_uid'', JNull)]"
  by code_simp+

lemma itemMasterExample_id:
  "getProp (itemMasterExample ! 2) ''UID*'' = JStr (''X1'' @ [CHR 0x09, CHR 0x20])"
  by (simp add: itemMasterExample_def getProp_def)

theorem item_master_one_record_per_id_witness:
  "map (\<lambda>r. (getProp r ''item_uid'', getProp r ''name''))
     (masteritemsData (itemMasterRows utcRuntime itemMasterExample)) = [(JStr ''X1'', JStr ''First'')] \<and>
   firstRow utcRuntime itemMasterExample ''X1'' = Some (itemMasterExample ! 0) \<and>
   rowUid utcRuntime (itemMasterExample ! 2) = Some ''X1'' \<and>
   barcodesData (itemMasterRows utcRuntime itemMasterExample)
     = [[(''item_uid'', JStr ''X1''), (''barcode'', JStr ''111''), (''is_main'', JNum (Fin 1 0))],
        [(''item_uid'', JStr ''X1''), (''barcode'', JStr ''222''), (''is_main'', JNum (Fin 1 0))]] \<and>
   seenBrands (itemMasterRows utcRuntime itemMasterExample) = [''Acme'', ''Best''] \<and>
   seenManufacturers (itemMasterRows utcRuntime itemMasterExample) = [''Maker''] \<and>
   map fst (seenErpCategories (itemMasterRows utcRuntime itemMasterExample)) = [''S1'', ''F1''] \<and>
   map_of (seenErpCategories (itemMasterRows utcRuntime itemMasterExample)) ''S1''
     = Some [(''erp_category_uid'', JStr ''S1''), (''name'', JStr ''Food''),
             (''parent_category_uid'', JNull)]"
proof -
  note t = item_master_one_record_per_id [of utcRuntime itemMasterExample]
  from t have id: "rowUid utcRuntime (itemMasterExample ! 2) = Some ''X1'' \<longleftrightarrow>
        getProp (itemMasterExample ! 2) ''UID*'' \<noteq> JNull \<and>
        getProp (itemMasterExample ! 2) ''UID*'' \<noteq> JUndef \<and>
        ''X1'' \<noteq> [] \<and> hd ''X1'' \<notin> whiteSpace \<and> last ''X1'' \<notin> whiteSpace \<and>
        (\<exists>a b. toStr utcRuntime (getProp (itemMasterExample ! 2) ''UID*'') = a @ ''X1'' @ b \<and>
           set a \<subseteq> whiteSpace \<and> set b \<subseteq> whiteSpace)"
    by (elim conjE allE) assumption
  have "toStr utcRuntime (getProp (itemMasterExample ! 2) ''UID*'') = [] @ ''X1'' @ [CHR 0x09, CHR 0x20] \<and>
      set [] \<subseteq> whiteSpace \<and> set [CHR 0x09, CHR 0x20] \<subseteq> whiteSpace"
    by (simp add: itemMasterExample_id)
  then have "\<exists>a b. toStr utcRuntime (getProp (itemMasterExample ! 2) ''UID*'') = a @ ''X1'' @ b \<and>
      set a \<subseteq> whiteSpace \<and> set b \<subseteq> whiteSpace"
    by (intro exI)
  with id have w3: "rowUid utcRuntime (itemMasterExample ! 2) = Some ''X1''"
    by (simp add: itemMasterExample_id)
  from t have w4: "barcodesData (itemMasterRows utcRuntime itemMasterExample)
      = barcodeRows utcRuntime itemMasterExample"
    and w5: "seenBrands (itemMasterRows utcRuntime itemMasterExample)
      = insertionOrder (brandNames utcRuntime itemMasterExample)"
    and w6: "seenManufacturers (itemMasterRows utcRuntime itemMasterExample)
      = insertionOrder (manufacturerNames utcRuntime itemMasterExample)"
    and w7: "map fst (seenErpCategories (itemMasterRows utcRuntime itemMasterExample))
      = insertionOrder (map fst (levelRecords utcRuntime itemMasterExample))"
    and w8: "map_of (seenErpCategories (itemMasterRows utcRuntime itemMasterExample)) ''S1''
      = map_of (levelRecords utcRuntime itemMasterExample) ''S1''"
    by (simp_all only:)
  show ?thesis
    by (intro conjI itemMasterExample_items w3)
      (simp_all only: w4 w5 w6 w7 w8 itemMasterExample_side)
qed

end
